theory Spec2Isabelle
  imports Complex_Main "HOL-Library.Sublist" "HOL-Library.Word"
begin

section \<open>JavaScript values and built-ins used by the services\<close>

text \<open>
  Strings are lists of code units, an \<open>ArrayBuffer\<close> is a list of bytes, and a number that
  the services only use as an integer (pixel sizes, byte counts, HTTP statuses, millisecond
  time values) is an \<open>int\<close>. A \<open>Date\<close> is its time value: milliseconds since the epoch, UTC.
  Every \<open>Date\<close> of the program comes from \<open>new Date()\<close> or from the object store, so the
  invalid date is not a value of the model, with one exception: the cutoff date of the
  cleanup is computed by \<open>setDate\<close> and may be invalid, and it is an optional \<open>Date\<close>.
\<close>

type_synonym bytes = "8 word list"
type_synonym jsdate = int

text \<open>Truthiness of a string and of an optional string; \<open>a || d\<close> on both kinds of value.\<close>

definition truthy :: "string option \<Rightarrow> bool" where
  "truthy v = (case v of None \<Rightarrow> False | Some s \<Rightarrow> s \<noteq> [])"

definition or_string :: "string option \<Rightarrow> string \<Rightarrow> string" where
  "or_string v d = (case v of None \<Rightarrow> d | Some s \<Rightarrow> if s = [] then d else s)"

definition or_number :: "int option \<Rightarrow> int \<Rightarrow> int" where
  "or_number v d = (case v of None \<Rightarrow> d | Some n \<Rightarrow> if n = 0 then d else n)"

fun nth_opt :: "'a list \<Rightarrow> nat \<Rightarrow> 'a option" where
  "nth_opt [] i = None"
| "nth_opt (x # xs) 0 = Some x"
| "nth_opt (x # xs) (Suc i) = nth_opt xs i"

subsection \<open>Character classes\<close>

definition isUpperAZ :: "char \<Rightarrow> bool" where
  "isUpperAZ c = (c \<in> set ''ABCDEFGHIJKLMNOPQRSTUVWXYZ'')"

definition isLowerAZ :: "char \<Rightarrow> bool" where
  "isLowerAZ c = (c \<in> set ''abcdefghijklmnopqrstuvwxyz'')"

definition isDigit09 :: "char \<Rightarrow> bool" where
  "isDigit09 c = (c \<in> set ''0123456789'')"

definition isAlnum :: "char \<Rightarrow> bool" where
  "isAlnum c = (isLowerAZ c \<or> isUpperAZ c \<or> isDigit09 c)"

text \<open>
  \<open>toUpperCase\<close>, and the canonicalisation of a case-insensitive regular expression without
  the unicode flag: both map \<open>a\<close>..\<open>z\<close> to \<open>A\<close>..\<open>Z\<close>; a code unit outside ASCII never
  becomes an ASCII one under the regular expression, and the services call \<open>toUpperCase\<close>
  on ASCII text only.
\<close>

definition toUpperChar :: "char \<Rightarrow> char" where
  "toUpperChar c =
     (case map_of (zip ''abcdefghijklmnopqrstuvwxyz'' ''ABCDEFGHIJKLMNOPQRSTUVWXYZ'') c of
        Some u \<Rightarrow> u
      | None \<Rightarrow> c)"

definition toUpperCase :: "string \<Rightarrow> string" where
  "toUpperCase s = map toUpperChar s"

subsection \<open>String methods\<close>

fun startsWith :: "string \<Rightarrow> string \<Rightarrow> bool" where
  "startsWith s [] = True"
| "startsWith [] (p # ps) = False"
| "startsWith (c # cs) (p # ps) = (c = p \<and> startsWith cs ps)"

fun includes_str :: "string \<Rightarrow> string \<Rightarrow> bool" where
  "includes_str [] p = (p = [])"
| "includes_str (c # cs) p = (startsWith (c # cs) p \<or> includes_str cs p)"

text \<open>\<open>s.replace(p, r)\<close> with a string pattern: the first occurrence only.\<close>

fun replace_first :: "string \<Rightarrow> string \<Rightarrow> string \<Rightarrow> string" where
  "replace_first [] p r = (if p = [] then r else [])"
| "replace_first (c # cs) p r =
     (if startsWith (c # cs) p then r @ drop (length p) (c # cs)
      else c # replace_first cs p r)"

text \<open>\<open>s.replace(/[class]/g, r)\<close>: every code unit of the class becomes \<open>r\<close>.\<close>

definition replace_all :: "(char \<Rightarrow> bool) \<Rightarrow> char \<Rightarrow> string \<Rightarrow> string" where
  "replace_all cls r s = map (\<lambda>c. if cls c then r else c) s"

text \<open>\<open>s.split(sep)\<close> where the separator matches one code unit; the result is never empty.\<close>

fun split_on :: "(char \<Rightarrow> bool) \<Rightarrow> string \<Rightarrow> string list" where
  "split_on sep [] = [[]]"
| "split_on sep (c # cs) =
     (if sep c then [] # split_on sep cs
      else (case split_on sep cs of
              [] \<Rightarrow> [[c]]
            | w # ws \<Rightarrow> (c # w) # ws))"

fun join :: "string \<Rightarrow> string list \<Rightarrow> string" where
  "join sep [] = []"
| "join sep [x] = x"
| "join sep (x # y # ys) = x @ sep @ join sep (y # ys)"

subsection \<open>Numbers and dates as text\<close>

function decimal :: "nat \<Rightarrow> string" where
  "decimal n =
     (if n < 10 then [''0123456789'' ! n]
      else decimal (n div 10) @ [''0123456789'' ! (n mod 10)])"
  by pat_completeness auto
termination
  by (relation "measure id") auto

declare decimal.simps [simp del]

text \<open>\<open>String(n)\<close> for an integer \<open>n\<close> (below the exponent notation, \<open>|n| < 10^21\<close>).\<close>

definition numberToString :: "int \<Rightarrow> string" where
  "numberToString n = (if n < 0 then ''-'' @ decimal (nat (- n)) else decimal (nat n))"

text \<open>Groups of three digits from the right, as the \<open>en-US\<close> locale separates them.\<close>

fun group3_rev :: "string \<Rightarrow> string" where
  "group3_rev (a # b # c # d # rest) = a # b # c # CHR '','' # group3_rev (d # rest)"
| "group3_rev ds = ds"

definition group3 :: "string \<Rightarrow> string" where
  "group3 ds = rev (group3_rev (rev ds))"

text \<open>
  \<open>n.toLocaleString()\<close> for an integer, in the \<open>en-US\<close> locale of the hosting runtime.
\<close>

definition toLocaleString :: "int \<Rightarrow> string" where
  "toLocaleString n =
     (if n < 0 then ''-'' @ group3 (decimal (nat (- n))) else group3 (decimal (nat n)))"

definition pad :: "nat \<Rightarrow> nat \<Rightarrow> string" where
  "pad w n = replicate (w - length (decimal n)) (CHR ''0'') @ decimal n"

text \<open>
  The civil date of a day number (days since 1970-01-01, proleptic Gregorian calendar), as
  \<open>YearFromTime\<close>, \<open>MonthFromTime\<close> and \<open>DateFromTime\<close> of ECMAScript give it.
\<close>

definition civil_from_days :: "int \<Rightarrow> int \<times> int \<times> int" where
  "civil_from_days z0 =
     (let z = z0 + 719468;
          era = z div 146097;
          doe = z - era * 146097;
          yoe = (doe - doe div 1460 + doe div 36524 - doe div 146096) div 365;
          y = yoe + era * 400;
          doy = doe - (365 * yoe + yoe div 4 - yoe div 100);
          mp = (5 * doy + 2) div 153;
          d = doy - (153 * mp + 2) div 5 + 1;
          m = (if mp < 10 then mp + 3 else mp - 9)
      in (if m \<le> 2 then y + 1 else y, m, d))"

definition msPerDay :: int where
  "msPerDay = 86400000"

definition isoYear :: "int \<Rightarrow> string" where
  "isoYear y =
     (if 0 \<le> y \<and> y \<le> 9999 then pad 4 (nat y)
      else (if y < 0 then ''-'' else ''+'') @ pad 6 (nat \<bar>y\<bar>))"

text \<open>\<open>Date.prototype.toISOString\<close>: \<open>YYYY-MM-DDTHH:mm:ss.sssZ\<close>, in UTC.\<close>

definition toISOString :: "jsdate \<Rightarrow> string" where
  "toISOString t =
     (let day = t div msPerDay;
          ms = t mod msPerDay;
          (y, m, d) = civil_from_days day
      in isoYear y @ ''-'' @ pad 2 (nat m) @ ''-'' @ pad 2 (nat d) @ ''T''
         @ pad 2 (nat (ms div 3600000)) @ '':'' @ pad 2 (nat ((ms div 60000) mod 60)) @ '':''
         @ pad 2 (nat ((ms div 1000) mod 60)) @ ''.'' @ pad 3 (nat (ms mod 1000)) @ ''Z'')"

section \<open>Thrown values\<close>

text \<open>
  Every value the services throw or catch. \<open>Error\<close> stands for a plain \<open>Error\<close> and for the
  built-in errors the services do not tell apart; \<open>NonError\<close> for a thrown value that is not
  an instance of \<open>Error\<close>. The domain errors carry their \<open>originalError\<close>.
\<close>

datatype thrown =
    Error string
  | ChartImageValidationError string
  | ChartImageApiError string int
  | ChartValidationError string
  | ChartGenerationError string thrown
  | StorageUploadError string thrown
  | StorageListError string thrown
  | StorageCleanupError string thrown
  | ImageListError string thrown
  | ImageStatisticsError string thrown
  | NonError

fun instanceofError :: "thrown \<Rightarrow> bool" where
  "instanceofError NonError = False"
| "instanceofError e = True"

fun message :: "thrown \<Rightarrow> string" where
  "message (Error m) = m"
| "message (ChartImageValidationError m) = m"
| "message (ChartImageApiError m st) = m"
| "message (ChartValidationError m) = m"
| "message (ChartGenerationError m c) = m"
| "message (StorageUploadError m c) = m"
| "message (StorageListError m c) = m"
| "message (StorageCleanupError m c) = m"
| "message (ImageListError m c) = m"
| "message (ImageStatisticsError m c) = m"
| "message NonError = []"

text \<open>\<open>error instanceof Error ? error.message : "Unknown error"\<close>\<close>

definition messageOrUnknown :: "thrown \<Rightarrow> string" where
  "messageOrUnknown e = (if instanceofError e then message e else ''Unknown error'')"

fun instanceofChartImageValidationError :: "thrown \<Rightarrow> bool" where
  "instanceofChartImageValidationError (ChartImageValidationError m) = True"
| "instanceofChartImageValidationError e = False"

fun instanceofChartImageApiError :: "thrown \<Rightarrow> bool" where
  "instanceofChartImageApiError (ChartImageApiError m st) = True"
| "instanceofChartImageApiError e = False"

fun instanceofChartValidationError :: "thrown \<Rightarrow> bool" where
  "instanceofChartValidationError (ChartValidationError m) = True"
| "instanceofChartValidationError e = False"

fun instanceofChartGenerationError :: "thrown \<Rightarrow> bool" where
  "instanceofChartGenerationError (ChartGenerationError m c) = True"
| "instanceofChartGenerationError e = False"

fun instanceofStorageUploadError :: "thrown \<Rightarrow> bool" where
  "instanceofStorageUploadError (StorageUploadError m c) = True"
| "instanceofStorageUploadError e = False"

section \<open>Constants\<close>

record ChartConfig =
  defaultTheme :: string
  defaultInterval :: string
  defaultSize :: "int \<times> int"
  maxSize :: "int \<times> int"
  supportedFormats :: "string list"
  timeout_default :: int
  timeout_popular :: int
  timeout_minor :: int

definition CHART_CONFIG :: ChartConfig where
  "CHART_CONFIG =
     \<lparr> defaultTheme = ''dark'', defaultInterval = ''1H'', defaultSize = (800, 600),
       maxSize = (1600, 1200), supportedFormats = [''png'', ''jpg'', ''webp''],
       timeout_default = 20000, timeout_popular = 15000, timeout_minor = 30000 \<rparr>"

text \<open>
  The two shapes of the restricted patterns: \<open>/^P/i\<close> matches at the start, \<open>/P/i\<close>
  anywhere; both ignore case.
\<close>

datatype restricted_pattern = AtStartNoCase string | AnywhereNoCase string

fun pattern_test :: "restricted_pattern \<Rightarrow> string \<Rightarrow> bool" where
  "pattern_test (AtStartNoCase p) s = startsWith (toUpperCase s) (toUpperCase p)"
| "pattern_test (AnywhereNoCase p) s = includes_str (toUpperCase s) (toUpperCase p)"

definition RESTRICTED_PATTERNS :: "restricted_pattern list" where
  "RESTRICTED_PATTERNS =
     [AtStartNoCase ''TEST:'', AtStartNoCase ''DEMO:'', AtStartNoCase ''FAKE:'',
      AnywhereNoCase ''SCAM'']"

definition isRestrictedSymbol :: "string \<Rightarrow> bool" where
  "isRestrictedSymbol symbol = list_ex (\<lambda>pattern. pattern_test pattern symbol) RESTRICTED_PATTERNS"

definition getTimeoutForToken :: "string \<Rightarrow> int" where
  "getTimeoutForToken symbol =
     (let popularTokens = [''SOL'', ''BTC'', ''ETH'', ''USDC'', ''USDT'', ''JUP'', ''RAY'']
      in if toUpperCase symbol \<in> set popularTokens then timeout_popular CHART_CONFIG
         else timeout_default CHART_CONFIG)"

record DEXConfig =
  dex_id :: string
  dex_name :: string
  dex_displayName :: string
  dex_baseUrl :: "string option"
  dex_supported :: bool
  dex_type :: string

definition SOLANA_EXCHANGES :: "DEXConfig list" where
  "SOLANA_EXCHANGES =
     [\<lparr> dex_id = ''drift'', dex_name = ''DRIFT'', dex_displayName = ''Drift Protocol'',
        dex_baseUrl = Some ''https://app.drift.trade'', dex_supported = True,
        dex_type = ''perpetual'' \<rparr>,
      \<lparr> dex_id = ''raydium'', dex_name = ''RAYDIUM'', dex_displayName = ''Raydium'',
        dex_baseUrl = Some ''https://raydium.io'', dex_supported = True, dex_type = ''both'' \<rparr>,
      \<lparr> dex_id = ''jupiter'', dex_name = ''JUPITER'', dex_displayName = ''Jupiter'',
        dex_baseUrl = Some ''https://jup.ag'', dex_supported = True, dex_type = ''spot'' \<rparr>,
      \<lparr> dex_id = ''mango'', dex_name = ''MANGO'', dex_displayName = ''Mango Markets'',
        dex_baseUrl = Some ''https://trade.mango.markets'', dex_supported = True,
        dex_type = ''both'' \<rparr>,
      \<lparr> dex_id = ''phoenix'', dex_name = ''PHOENIX'', dex_displayName = ''Phoenix'',
        dex_baseUrl = Some ''https://app.phoenix.trade'', dex_supported = True,
        dex_type = ''spot'' \<rparr>]"

definition SUPPORTED_SOLANA_EXCHANGES :: "string list" where
  "SUPPORTED_SOLANA_EXCHANGES = map dex_name (filter dex_supported SOLANA_EXCHANGES)"

section \<open>Chart provider adapter (ChartImageClient)\<close>

text \<open>
  The source file of the adapter holds an earlier and a later text of the class. The model
  follows the later one, which has the handler of provider errors, the intervals \<open>6h\<close> and
  \<open>12h\<close>, and \<open>/\<close> and \<open>-\<close> in the symbol patterns.
\<close>

record ChartImageRequest =
  ci_symbol :: string
  ci_interval :: string
  ci_width :: int
  ci_height :: int
  ci_theme :: string

text \<open>
  The options ChartService passes, and the two other plain ones. The chart-decoration
  options (indicators, drawings, style and so on) are copied into the request body when
  present and no service sets them; they are left out.
\<close>

record ChartImageOptions =
  opt_timeout :: "int option"
  opt_format :: "string option"
  opt_backgroundColor :: "string option"
  opt_timezone :: "string option"
  opt_locale :: "string option"

record ChartImageResult =
  cr_imageBuffer :: bytes
  cr_contentType :: string
  cr_size :: int

record request_body =
  rb_symbol :: string
  rb_interval :: string
  rb_width :: int
  rb_height :: int
  rb_theme :: string
  rb_format :: string
  rb_backgroundColor :: "string option"
  rb_timezone :: "string option"
  rb_locale :: "string option"

text \<open>
  What the provider answers to one HTTP call. A failure carries the status, the status text
  and the body as \<open>handleApiError\<close> reads it: a JSON array of field errors
  (\<open>param\<close>, \<open>msg\<close>), a JSON object with or without a \<open>message\<close>, a text of another
  content type, or a body that cannot be read. A JSON body that is neither an array nor an
  object is not modelled. A successful answer carries the image and the content type.
\<close>

datatype error_body =
    JsonArray "(string \<times> string) list"
  | JsonObject "string option"
  | PlainText string
  | Unreadable

datatype fetch_outcome =
    FetchResponse bytes "string option"
  | FetchFailure int string error_body
  | FetchAbort
  | FetchReject thrown

type_synonym fetcher = "request_body \<Rightarrow> int \<Rightarrow> fetch_outcome"

definition defaultTimeout :: int where
  "defaultTimeout = 30000"

definition isValidInterval :: "string \<Rightarrow> bool" where
  "isValidInterval interval =
     (let validIntervals =
        [''1'', ''3'', ''5'', ''15'', ''30'', ''45'',
         ''1H'', ''2H'', ''3H'', ''4H'', ''6H'', ''8H'', ''12H'', ''6h'', ''12h'',
         ''1D'', ''2D'', ''3D'',
         ''1W'', ''1M'']
      in interval \<in> set validIntervals)"

text \<open>The class \<open>[A-Z0-9_]\<close> and its extensions, under the \<open>i\<close> flag.\<close>

definition isWordChar :: "char \<Rightarrow> bool" where
  "isWordChar c = (isAlnum c \<or> c = CHR ''_'')"

definition isPairChar :: "char \<Rightarrow> bool" where
  "isPairChar c = (isWordChar c \<or> c = CHR ''/'' \<or> c = CHR ''-'')"

definition isRequestSymbolChar :: "char \<Rightarrow> bool" where
  "isRequestSymbolChar c =
     (isWordChar c \<or> c = CHR '':'' \<or> c = CHR ''.'' \<or> c = CHR ''/'' \<or> c = CHR ''-'')"

text \<open>
  Width and height are integers in the model, so \<open>Number.isInteger\<close> holds of them and only
  the range tests remain.
\<close>

definition validateRequest :: "ChartImageRequest \<Rightarrow> thrown + unit" where
  "validateRequest request =
     (if ci_symbol request = [] then Inl (ChartImageValidationError ''Symbol is required'')
      else if \<not> list_all isRequestSymbolChar (ci_symbol request)
        then Inl (ChartImageValidationError ''Invalid symbol format'')
      else if ci_interval request = [] then Inl (ChartImageValidationError ''Interval is required'')
      else if \<not> isValidInterval (ci_interval request)
        then Inl (ChartImageValidationError (''Invalid interval: '' @ ci_interval request))
      else if ci_width request < 100 \<or> ci_width request > 2000
        then Inl (ChartImageValidationError ''Width must be an integer between 100 and 2000'')
      else if ci_height request < 100 \<or> ci_height request > 2000
        then Inl (ChartImageValidationError ''Height must be an integer between 100 and 2000'')
      else if ci_theme request \<notin> set [''light'', ''dark'']
        then Inl (ChartImageValidationError (''Theme must be 'light' or 'dark'' @ [CHR 0x27]))
      else Inr ())"

record SymbolFormat =
  isValid :: bool
  sf_exchange :: "string option"
  sf_pair :: "string option"

text \<open>
  \<open>symbol.match(/^([A-Z0-9_]+):([A-Z0-9_/-]+)$/i)\<close>: the first group is the longest run of
  word characters, which a colon must follow.
\<close>

definition validateSymbolFormat :: "string \<Rightarrow> SymbolFormat" where
  "validateSymbolFormat symbol =
     (let exchange = takeWhile isWordChar symbol;
          rest = dropWhile isWordChar symbol
      in case rest of
           [] \<Rightarrow> \<lparr> isValid = False, sf_exchange = None, sf_pair = None \<rparr>
         | c # pair \<Rightarrow>
             if c = CHR '':'' \<and> exchange \<noteq> [] \<and> pair \<noteq> [] \<and> list_all isPairChar pair
             then \<lparr> isValid = True, sf_exchange = Some exchange, sf_pair = Some pair \<rparr>
             else \<lparr> isValid = False, sf_exchange = None, sf_pair = None \<rparr>)"

definition buildRequestBody :: "ChartImageRequest \<Rightarrow> ChartImageOptions \<Rightarrow> request_body" where
  "buildRequestBody request options =
     \<lparr> rb_symbol = ci_symbol request, rb_interval = ci_interval request,
       rb_width = ci_width request, rb_height = ci_height request, rb_theme = ci_theme request,
       rb_format = or_string (opt_format options) ''png'',
       rb_backgroundColor =
         (if truthy (opt_backgroundColor options) then opt_backgroundColor options else None),
       rb_timezone = (if truthy (opt_timezone options) then opt_timezone options else None),
       rb_locale = (if truthy (opt_locale options) then opt_locale options else None) \<rparr>"

definition handleApiError :: "int \<Rightarrow> string \<Rightarrow> error_body \<Rightarrow> thrown" where
  "handleApiError status statusText body =
     (let fallback =
            ChartImageApiError
              (''Chart-IMG API error: '' @ numberToString status @ '' '' @ statusText) status;
          fromMessage =
            (\<lambda>m. case m of
                   None \<Rightarrow> fallback
                 | Some text \<Rightarrow> if text \<noteq> [] then ChartImageApiError text status else fallback)
      in case body of
           JsonArray errs \<Rightarrow>
             ChartImageApiError
               (''Validation error: '' @ join '', '' (map (\<lambda>(param, msg). param @ '': '' @ msg) errs))
               status
         | JsonObject m \<Rightarrow> fromMessage m
         | PlainText t \<Rightarrow> fromMessage (Some t)
         | Unreadable \<Rightarrow> fromMessage (Some ''Unknown error''))"

text \<open>
  An effectful operation returns its result, or the value it throws, together with the
  calls it made to the provider and to the object store, in order.
\<close>

definition makeApiRequest ::
  "fetcher \<Rightarrow> request_body \<Rightarrow> int option \<Rightarrow> (thrown + bytes \<times> string option) \<times> (request_body \<times> int) list"
where
  "makeApiRequest fetch requestBody timeout =
     (let timeoutMs = or_number timeout defaultTimeout
      in (case fetch requestBody timeoutMs of
            FetchResponse buffer contentType \<Rightarrow> Inr (buffer, contentType)
          | FetchFailure status statusText body \<Rightarrow> Inl (handleApiError status statusText body)
          | FetchAbort \<Rightarrow>
              Inl (ChartImageApiError
                     (''Request timeout after '' @ numberToString timeoutMs @ ''ms'') 408)
          | FetchReject e \<Rightarrow> Inl e,
          [(requestBody, timeoutMs)]))"

definition generateChartImage ::
  "fetcher \<Rightarrow> ChartImageRequest \<Rightarrow> ChartImageOptions
     \<Rightarrow> (thrown + ChartImageResult) \<times> (request_body \<times> int) list"
where
  "generateChartImage fetch request options =
     (case validateRequest request of
        Inl e \<Rightarrow> (Inl e, [])
      | Inr u \<Rightarrow>
          (let requestBody = buildRequestBody request options;
               (response, calls) = makeApiRequest fetch requestBody (opt_timeout options)
           in case response of
                Inl error \<Rightarrow>
                  (if instanceofChartImageApiError error then (Inl error, calls)
                   else (Inl (ChartImageApiError
                                (''Chart image generation failed: '' @ messageOrUnknown error) 500),
                         calls))
              | Inr (imageBuffer, contentType) \<Rightarrow>
                  (Inr \<lparr> cr_imageBuffer = imageBuffer,
                         cr_contentType = or_string contentType ''image/png'',
                         cr_size = int (length imageBuffer) \<rparr>,
                   calls)))"

section \<open>Chart domain service (ChartService)\<close>

record ChartSnapshotRequest =
  sr_symbol :: string
  sr_interval :: string
  sr_width :: int
  sr_height :: int
  sr_theme :: string

record ChartMetadata =
  cm_symbol :: string
  cm_interval :: string
  cm_width :: int
  cm_height :: int
  cm_theme :: string
  cm_generatedAt :: jsdate

record ChartGenerationResult =
  cg_imageBuffer :: bytes
  cg_contentType :: string
  cg_size :: int
  cg_metadata :: ChartMetadata

definition validateSolanaSymbol :: "string \<Rightarrow> thrown + unit" where
  "validateSolanaSymbol symbol =
     (let parts = split_on (\<lambda>c. c = CHR '':'') symbol;
          exchange = nth_opt parts 0;
          pair = nth_opt parts 1
      in if \<not> truthy exchange \<or> \<not> truthy pair
         then Inl (ChartValidationError
                     (''Invalid symbol format: '' @ symbol @ ''. Expected format: EXCHANGE:PAIR''))
         else if toUpperCase (or_string exchange []) \<notin> set SUPPORTED_SOLANA_EXCHANGES
         then Inl (ChartValidationError
                     (''Unsupported exchange: '' @ or_string exchange []
                      @ ''. Supported exchanges: '' @ join '', '' SUPPORTED_SOLANA_EXCHANGES))
         else Inr ())"

definition validateBusinessRules :: "ChartSnapshotRequest \<Rightarrow> thrown + unit" where
  "validateBusinessRules request =
     (let symbolValidation = validateSymbolFormat (sr_symbol request)
      in if \<not> isValid symbolValidation
         then Inl (ChartValidationError
                     (''Invalid symbol format: '' @ sr_symbol request
                      @ ''. Expected format for Solana DEX: DRIFT:SOL-PERP, RAYDIUM:SOL/USDC, etc.''))
         else if isRestrictedSymbol (sr_symbol request)
         then Inl (ChartValidationError (''Symbol '' @ sr_symbol request @ '' is not supported''))
         else
           (let pixelCount = sr_width request * sr_height request;
                maxPixelCount = fst (maxSize CHART_CONFIG) * snd (maxSize CHART_CONFIG)
            in if pixelCount > maxPixelCount
               then Inl (ChartValidationError
                           (''Image size is too large. Maximum pixel count is ''
                            @ toLocaleString maxPixelCount))
               else validateSolanaSymbol (sr_symbol request)))"

definition extractTokenFromSymbol :: "string \<Rightarrow> string" where
  "extractTokenFromSymbol symbol =
     (case nth_opt (split_on (\<lambda>c. c = CHR '':'') symbol) 1 of
        None \<Rightarrow> ''SOL''
      | Some pair \<Rightarrow>
          if pair = [] then ''SOL''
          else if includes_str pair ''-PERP'' then replace_first pair ''-PERP'' []
          else if includes_str pair ''/''
          then or_string (nth_opt (split_on (\<lambda>c. c = CHR ''/'') pair) 0) ''SOL''
          else or_string (nth_opt (split_on (\<lambda>c. \<not> isUpperAZ c) pair) 0) ''SOL'')"

definition mapToChartImageRequest :: "ChartSnapshotRequest \<Rightarrow> ChartImageRequest" where
  "mapToChartImageRequest request =
     \<lparr> ci_symbol = sr_symbol request, ci_interval = sr_interval request,
       ci_width = sr_width request, ci_height = sr_height request,
       ci_theme = sr_theme request \<rparr>"

text \<open>The \<open>catch\<close> block of \<open>createSnapshot\<close>, which every error of its \<open>try\<close> reaches.\<close>

definition createSnapshot_catch :: "thrown \<Rightarrow> thrown" where
  "createSnapshot_catch error =
     (if instanceofChartImageValidationError error then ChartValidationError (message error)
      else ChartGenerationError
             (''Chart snapshot creation failed: '' @ messageOrUnknown error) error)"

text \<open>\<open>now\<close> is the value of \<open>new Date()\<close> when the image has arrived.\<close>

definition createSnapshot ::
  "fetcher \<Rightarrow> jsdate \<Rightarrow> ChartSnapshotRequest
     \<Rightarrow> (thrown + ChartGenerationResult) \<times> (request_body \<times> int) list"
where
  "createSnapshot fetch now request =
     (case validateBusinessRules request of
        Inl error \<Rightarrow> (Inl (createSnapshot_catch error), [])
      | Inr u \<Rightarrow>
          (let chartRequest = mapToChartImageRequest request;
               (chartResult, calls) =
                 generateChartImage fetch chartRequest
                   \<lparr> opt_timeout =
                       Some (getTimeoutForToken (extractTokenFromSymbol (sr_symbol request))),
                     opt_format = Some ''png'', opt_backgroundColor = None,
                     opt_timezone = None, opt_locale = Some ''en'' \<rparr>
           in case chartResult of
                Inl error \<Rightarrow> (Inl (createSnapshot_catch error), calls)
              | Inr r \<Rightarrow>
                  (Inr \<lparr> cg_imageBuffer = cr_imageBuffer r, cg_contentType = cr_contentType r,
                         cg_size = cr_size r,
                         cg_metadata =
                           \<lparr> cm_symbol = sr_symbol request, cm_interval = sr_interval request,
                             cm_width = sr_width request, cm_height = sr_height request,
                             cm_theme = sr_theme request, cm_generatedAt = now \<rparr> \<rparr>,
                   calls)))"

section \<open>Object store adapter (R2Client)\<close>

text \<open>
  A promise of the object store resolves with a value or rejects with a thrown value.
  \<open>Record<string, string>\<close> is an association list, read with \<open>map_of\<close>.
\<close>

datatype 'a outcome = Resolve 'a | Reject thrown

type_synonym string_record = "(string \<times> string) list"

record R2HttpMetadata =
  hm_contentType :: "string option"
  hm_cacheControl :: "string option"

record R2ObjectMetadata =
  ob_key :: string
  ob_size :: int
  ob_etag :: string
  ob_uploaded :: jsdate
  ob_httpMetadata :: "R2HttpMetadata option"
  ob_customMetadata :: "string_record option"

record R2PutOptions =
  po_httpMetadata :: "R2HttpMetadata option"
  po_customMetadata :: "string_record option"

record R2ListOptions =
  lo_prefix :: "string option"
  lo_cursor :: "string option"
  lo_limit :: "int option"
  lo_include :: "string list option"

record R2ListResult =
  lr_objects :: "R2ObjectMetadata list"
  lr_truncated :: bool
  lr_cursor :: "string option"

record R2UploadResult =
  ur_key :: string
  ur_etag :: string
  ur_size :: int
  ur_uploadedAt :: jsdate

text \<open>
  The bucket binding: what the store answers to \<open>put\<close>, \<open>list\<close> and \<open>delete\<close>. \<open>put\<close> may
  resolve with \<open>null\<close>.
\<close>

record R2Bucket =
  bucket_put :: "string \<Rightarrow> bytes \<Rightarrow> R2PutOptions \<Rightarrow> R2ObjectMetadata option outcome"
  bucket_list :: "R2ListOptions \<Rightarrow> R2ListResult outcome"
  bucket_delete :: "string list \<Rightarrow> unit outcome"

datatype ext_call =
    Fetch request_body int
  | R2Put string bytes R2PutOptions
  | R2List R2ListOptions
  | R2Delete "string list"

record UploadOptions =
  uo_contentType :: "string option"
  uo_cacheControl :: "string option"
  uo_customMetadata :: "string_record option"

definition uploadObject ::
  "R2Bucket \<Rightarrow> string \<Rightarrow> bytes \<Rightarrow> UploadOptions \<Rightarrow> (thrown + R2UploadResult) \<times> ext_call list"
where
  "uploadObject bucket key data options =
     (let putOptions =
            \<lparr> po_httpMetadata =
                (if truthy (uo_contentType options) \<or> truthy (uo_cacheControl options)
                 then Some \<lparr> hm_contentType = uo_contentType options,
                             hm_cacheControl = uo_cacheControl options \<rparr>
                 else None),
              po_customMetadata = uo_customMetadata options \<rparr>;
          failed = (\<lambda>error. Inl (Error (''R2 upload failed: '' @ messageOrUnknown error)))
      in (case bucket_put bucket key data putOptions of
            Reject error \<Rightarrow> failed error
          | Resolve None \<Rightarrow> failed (Error ''Failed to upload object to R2'')
          | Resolve (Some result) \<Rightarrow>
              Inr \<lparr> ur_key = ob_key result, ur_etag = ob_etag result, ur_size = ob_size result,
                    ur_uploadedAt = ob_uploaded result \<rparr>,
          [R2Put key data putOptions]))"

definition listObjects ::
  "R2Bucket \<Rightarrow> R2ListOptions \<Rightarrow> (thrown + R2ListResult) \<times> ext_call list"
where
  "listObjects bucket options =
     (let listOptions =
            \<lparr> lo_prefix = lo_prefix options, lo_cursor = lo_cursor options,
              lo_limit = Some (or_number (lo_limit options) 1000),
              lo_include =
                Some (case lo_include options of
                        None \<Rightarrow> [''httpMetadata'', ''customMetadata'']
                      | Some inc \<Rightarrow> inc) \<rparr>
      in (case bucket_list bucket listOptions of
            Reject error \<Rightarrow>
              Inl (Error (''R2 list operation failed: '' @ messageOrUnknown error))
          | Resolve result \<Rightarrow>
              Inr \<lparr> lr_objects = lr_objects result, lr_truncated = lr_truncated result,
                    lr_cursor = (if lr_truncated result then lr_cursor result else None) \<rparr>,
          [R2List listOptions]))"


section \<open>Storage domain service (StorageService)\<close>

record UploadMetadata =
  um_interval :: string
  um_theme :: string
  um_width :: int
  um_height :: int
  um_generatedAt :: jsdate

record UploadResult =
  up_fileName :: string
  up_publicUrl :: string
  up_uploadedAt :: string
  up_size :: int
  up_etag :: string

record StorageMetadata =
  sm_symbol :: string
  sm_interval :: string
  sm_theme :: string
  sm_dimensions :: string
  sm_generatedAt :: string

record ListedImage =
  li_fileName :: string
  li_publicUrl :: string
  li_size :: int
  li_uploadedAt :: string
  li_metadata :: "StorageMetadata option"

record ListedImages =
  ls_images :: "ListedImage list"
  ls_hasMore :: bool
  ls_nextCursor :: "string option"

record ListChartOptions =
  lc_symbol :: "string option"
  lc_limit :: "int option"
  lc_cursor :: "string option"

definition generateFileName :: "string \<Rightarrow> UploadMetadata \<Rightarrow> string" where
  "generateFileName symbol metadata =
     (let timestamp =
            replace_all (\<lambda>c. c = CHR '':'' \<or> c = CHR ''.'') (CHR ''-'')
              (toISOString (um_generatedAt metadata));
          cleanSymbol = replace_all (\<lambda>c. \<not> isAlnum c) (CHR ''_'') symbol;
          dimensions =
            numberToString (um_width metadata) @ ''x'' @ numberToString (um_height metadata)
      in ''charts/'' @ timestamp @ ''_'' @ cleanSymbol @ ''_'' @ um_interval metadata @ ''_''
         @ um_theme metadata @ ''_'' @ dimensions @ ''.png'')"

definition getSymbolPrefix :: "string \<Rightarrow> string" where
  "getSymbolPrefix symbol =
     (let cleanSymbol = replace_all (\<lambda>c. \<not> isAlnum c) (CHR ''_'') symbol
      in ''charts/'' @ cleanSymbol)"

definition buildPublicUrl :: "string \<Rightarrow> string \<Rightarrow> string" where
  "buildPublicUrl customDomain key = ''https://'' @ customDomain @ ''/'' @ key"

definition buildStorageMetadata :: "string \<Rightarrow> UploadMetadata \<Rightarrow> string_record" where
  "buildStorageMetadata symbol metadata =
     [(''symbol'', symbol),
      (''interval'', um_interval metadata),
      (''theme'', um_theme metadata),
      (''dimensions'',
         numberToString (um_width metadata) @ ''x'' @ numberToString (um_height metadata)),
      (''generatedAt'', toISOString (um_generatedAt metadata)),
      (''version'', ''1.0'')]"

definition parseStorageMetadata :: "string_record option \<Rightarrow> StorageMetadata option" where
  "parseStorageMetadata customMetadata =
     (case customMetadata of
        None \<Rightarrow> None
      | Some cm \<Rightarrow>
          (let symbol = map_of cm ''symbol'';
               interval = map_of cm ''interval'';
               theme = map_of cm ''theme'';
               dimensions = map_of cm ''dimensions'';
               generatedAt = map_of cm ''generatedAt''
           in if \<not> truthy symbol \<or> \<not> truthy interval \<or> \<not> truthy theme
                 \<or> \<not> truthy dimensions \<or> \<not> truthy generatedAt
              then None
              else Some \<lparr> sm_symbol = or_string symbol [], sm_interval = or_string interval [],
                          sm_theme = or_string theme [], sm_dimensions = or_string dimensions [],
                          sm_generatedAt = or_string generatedAt [] \<rparr>))"

definition uploadChartImage ::
  "R2Bucket \<Rightarrow> string \<Rightarrow> bytes \<Rightarrow> string \<Rightarrow> UploadMetadata
     \<Rightarrow> (thrown + UploadResult) \<times> ext_call list"
where
  "uploadChartImage bucket customDomain imageBuffer symbol metadata =
     (let fileName = generateFileName symbol metadata;
          storageMetadata = buildStorageMetadata symbol metadata;
          (uploadResult, calls) =
            uploadObject bucket fileName imageBuffer
              \<lparr> uo_contentType = Some ''image/png'',
                uo_cacheControl = Some ''public, max-age=3600'',
                uo_customMetadata = Some storageMetadata \<rparr>
      in case uploadResult of
           Inl error \<Rightarrow>
             (Inl (StorageUploadError
                     (''Failed to upload chart image: '' @ messageOrUnknown error) error),
              calls)
         | Inr r \<Rightarrow>
             (Inr \<lparr> up_fileName = ur_key r, up_publicUrl = buildPublicUrl customDomain (ur_key r),
                    up_uploadedAt = toISOString (ur_uploadedAt r), up_size = ur_size r,
                    up_etag = ur_etag r \<rparr>,
              calls))"

definition listChartImages ::
  "R2Bucket \<Rightarrow> string \<Rightarrow> ListChartOptions \<Rightarrow> (thrown + ListedImages) \<times> ext_call list"
where
  "listChartImages bucket customDomain options =
     (let prefix =
            (if truthy (lc_symbol options) then Some (getSymbolPrefix (or_string (lc_symbol options) []))
             else None);
          (listResult, calls) =
            listObjects bucket
              \<lparr> lo_prefix = prefix, lo_cursor = lc_cursor options,
                lo_limit = Some (or_number (lc_limit options) 50),
                lo_include = Some [''httpMetadata'', ''customMetadata''] \<rparr>
      in case listResult of
           Inl error \<Rightarrow>
             (Inl (StorageListError
                     (''Failed to list chart images: '' @ messageOrUnknown error) error),
              calls)
         | Inr r \<Rightarrow>
             (Inr \<lparr> ls_images =
                      map (\<lambda>obj. \<lparr> li_fileName = ob_key obj,
                                   li_publicUrl = buildPublicUrl customDomain (ob_key obj),
                                   li_size = ob_size obj,
                                   li_uploadedAt = toISOString (ob_uploaded obj),
                                   li_metadata = parseStorageMetadata (ob_customMetadata obj) \<rparr>)
                          (lr_objects r),
                    ls_hasMore = lr_truncated r, ls_nextCursor = lr_cursor r \<rparr>,
              calls))"








section \<open>Image domain service (ImageService)\<close>

record ImageDetails =
  im_fileName :: string
  im_size :: int
  im_uploadedAt :: string
  im_publicUrl :: string
  im_metadata :: "StorageMetadata option"
  im_etag :: string

record ImageListOptions =
  io_symbol :: "string option"
  io_limit :: "int option"
  io_cursor :: "string option"
  io_sortBy :: "string option"
  io_sortOrder :: "string option"

record ImageList =
  il_images :: "ImageDetails list"
  il_hasMore :: bool
  il_nextCursor :: "string option"

record ImageStatistics =
  st_totalImages :: int
  st_totalSize :: int
  st_averageSize :: int
  st_latestImage :: "ImageDetails option"
  st_oldestImage :: "ImageDetails option"
  st_byTheme :: "(string \<times> int) list"
  st_byInterval :: "(string \<times> int) list"

text \<open>
  \<open>Array.prototype.sort\<close> with a comparator: the sort is stable, and for a consistent
  comparator its result is the one of this insertion sort, where an element goes in front
  of the first later element it does not exceed. A comparator result of \<open>NaN\<close> counts as 0.
\<close>

fun sort_insert :: "('a \<Rightarrow> 'a \<Rightarrow> int) \<Rightarrow> 'a \<Rightarrow> 'a list \<Rightarrow> 'a list" where
  "sort_insert cmp x [] = [x]"
| "sort_insert cmp x (y # ys) = (if cmp x y \<le> 0 then x # y # ys else y # sort_insert cmp x ys)"

definition array_sort :: "('a \<Rightarrow> 'a \<Rightarrow> int) \<Rightarrow> 'a list \<Rightarrow> 'a list" where
  "array_sort cmp xs = foldr (sort_insert cmp) xs []"

text \<open>
  \<open>new Date(s).getTime()\<close> is a built-in of the runtime, taken as a parameter: the time
  value of the text, or \<open>None\<close> for \<open>NaN\<close>.
\<close>

type_synonym date_parser = "string \<Rightarrow> int option"

text \<open>\<open>a < b\<close> on strings compares code units lexicographically.\<close>

fun string_less :: "string \<Rightarrow> string \<Rightarrow> bool" where
  "string_less a [] = False"
| "string_less [] (y # ys) = True"
| "string_less (x # xs) (y # ys) =
     ((of_char x :: nat) < of_char y \<or> (x = y \<and> string_less xs ys))"

text \<open>\<open>a < b\<close> on numbers, either of which may be \<open>NaN\<close>.\<close>

definition number_less :: "int option \<Rightarrow> int option \<Rightarrow> bool" where
  "number_less a b = (case (a, b) of (Some x, Some y) \<Rightarrow> x < y | _ \<Rightarrow> False)"

definition sortImages_compare ::
  "date_parser \<Rightarrow> string \<Rightarrow> string \<Rightarrow> ImageDetails \<Rightarrow> ImageDetails \<Rightarrow> int"
where
  "sortImages_compare getTime sortBy sortOrder a b =
     (let ordered =
            (\<lambda>less. let comparison = (if less a b then - 1 else if less b a then 1 else (0::int))
                    in if sortOrder = ''asc'' then comparison else - comparison);
          symbolOf = (\<lambda>i. case im_metadata i of None \<Rightarrow> [] | Some m \<Rightarrow> sm_symbol m)
      in if sortBy = ''uploadedAt''
         then ordered (\<lambda>x y. number_less (getTime (im_uploadedAt x)) (getTime (im_uploadedAt y)))
         else if sortBy = ''symbol''
         then ordered (\<lambda>x y. string_less (symbolOf x) (symbolOf y))
         else if sortBy = ''size''
         then ordered (\<lambda>x y. im_size x < im_size y)
         else 0)"

definition sortImages ::
  "date_parser \<Rightarrow> ImageDetails list \<Rightarrow> string \<Rightarrow> string \<Rightarrow> ImageDetails list"
where
  "sortImages getTime images sortBy sortOrder =
     array_sort (sortImages_compare getTime sortBy sortOrder) images"

definition getImageList ::
  "R2Bucket \<Rightarrow> string \<Rightarrow> date_parser \<Rightarrow> ImageListOptions
     \<Rightarrow> (thrown + ImageList) \<times> ext_call list"
where
  "getImageList bucket customDomain getTime options =
     (let (result, calls) =
            listChartImages bucket customDomain
              \<lparr> lc_symbol = io_symbol options, lc_limit = Some (or_number (io_limit options) 20),
                lc_cursor = io_cursor options \<rparr>
      in case result of
           Inl error \<Rightarrow>
             (Inl (ImageListError (''Failed to get image list: '' @ messageOrUnknown error) error),
              calls)
         | Inr r \<Rightarrow>
             (let images =
                    map (\<lambda>img. \<lparr> im_fileName = li_fileName img, im_size = li_size img,
                                 im_uploadedAt = li_uploadedAt img,
                                 im_publicUrl = li_publicUrl img, im_metadata = li_metadata img,
                                 im_etag = [] \<rparr>)
                        (ls_images r);
                  sorted =
                    (if truthy (io_sortBy options)
                     then sortImages getTime images (or_string (io_sortBy options) [])
                            (or_string (io_sortOrder options) ''desc'')
                     else images)
              in (Inr \<lparr> il_images = sorted, il_hasMore = ls_hasMore r,
                        il_nextCursor = ls_nextCursor r \<rparr>,
                  calls)))"

text \<open>
  The \<open>do ... while (cursor)\<close> loop of \<open>getImageStatistics\<close>, from the cursor, the images
  collected and the calls made so far.
\<close>

partial_function (option) statistics_loop ::
  "R2Bucket \<Rightarrow> string \<Rightarrow> date_parser \<Rightarrow> string option \<Rightarrow> string option \<Rightarrow> ImageDetails list
     \<Rightarrow> ext_call list \<Rightarrow> ((thrown + ImageDetails list) \<times> ext_call list) option"
where
  "statistics_loop bucket customDomain getTime symbol cursor allImages calls =
     (case getImageList bucket customDomain getTime
             \<lparr> io_symbol = symbol, io_limit = Some 1000, io_cursor = cursor,
               io_sortBy = None, io_sortOrder = None \<rparr> of
        (Inl error, listed) \<Rightarrow> Some (Inl error, calls @ listed)
      | (Inr result, listed) \<Rightarrow>
          if truthy (il_nextCursor result)
          then statistics_loop bucket customDomain getTime symbol (il_nextCursor result)
                 (allImages @ il_images result) (calls @ listed)
          else Some (Inr (allImages @ il_images result), calls @ listed))"

declare statistics_loop.simps [code]

text \<open>
  \<open>counts[key] = (counts[key] || 0) + 1\<close> on an object used as a table of counts, read
  with \<open>map_of\<close>; the order in which an object enumerates its keys is not modelled.
\<close>

fun increment :: "string \<Rightarrow> (string \<times> int) list \<Rightarrow> (string \<times> int) list" where
  "increment k [] = [(k, 1)]"
| "increment k ((k', n) # rest) =
     (if k = k' then (k', n + 1) # rest else (k', n) # increment k rest)"

text \<open>
  \<open>Math.round(totalSize / count)\<close> for a positive count: the quotient rounded to the
  nearest integer, a half upwards (exact while the total is below \<open>2^51\<close>).
\<close>

definition round_div :: "int \<Rightarrow> int \<Rightarrow> int" where
  "round_div a n = (2 * a + n) div (2 * n)"

definition newestFirst :: "date_parser \<Rightarrow> ImageDetails \<Rightarrow> ImageDetails \<Rightarrow> int" where
  "newestFirst getTime a b =
     (case (getTime (im_uploadedAt b), getTime (im_uploadedAt a)) of
        (Some tb, Some ta) \<Rightarrow> tb - ta
      | _ \<Rightarrow> 0)"

definition computeStatistics :: "date_parser \<Rightarrow> ImageDetails list \<Rightarrow> ImageStatistics" where
  "computeStatistics getTime allImages =
     (if length allImages = 0
      then \<lparr> st_totalImages = 0, st_totalSize = 0, st_averageSize = 0, st_latestImage = None,
             st_oldestImage = None, st_byTheme = [], st_byInterval = [] \<rparr>
      else
        (let totalSize = foldl (\<lambda>acc img. acc + im_size img) 0 allImages;
             averageSize = round_div totalSize (int (length allImages));
             withMetadata = List.map_filter im_metadata allImages;
             byTheme = foldl (\<lambda>counts m. increment (sm_theme m) counts) [] withMetadata;
             byInterval = foldl (\<lambda>counts m. increment (sm_interval m) counts) [] withMetadata;
             sortedByDate = array_sort (newestFirst getTime) allImages
         in \<lparr> st_totalImages = int (length allImages), st_totalSize = totalSize,
              st_averageSize = averageSize, st_latestImage = nth_opt sortedByDate 0,
              st_oldestImage = nth_opt sortedByDate (length sortedByDate - 1),
              st_byTheme = byTheme, st_byInterval = byInterval \<rparr>))"

definition getImageStatistics ::
  "R2Bucket \<Rightarrow> string \<Rightarrow> date_parser \<Rightarrow> string option
     \<Rightarrow> ((thrown + ImageStatistics) \<times> ext_call list) option"
where
  "getImageStatistics bucket customDomain getTime symbol =
     (case statistics_loop bucket customDomain getTime symbol None [] [] of
        None \<Rightarrow> None
      | Some (Inl error, calls) \<Rightarrow>
          Some (Inl (ImageStatisticsError
                       (''Failed to get image statistics: '' @ messageOrUnknown error) error),
                calls)
      | Some (Inr allImages, calls) \<Rightarrow> Some (Inr (computeStatistics getTime allImages), calls))"

section \<open>Route handler of POST /image/\<close>

record Env =
  env_CHART_IMG_API_KEY :: "string option"
  env_TRADINGVIEW_BUCKET :: "R2Bucket option"
  env_CUSTOM_DOMAIN :: "string option"

record ChartSnapshotOptions =
  so_symbol :: "string option"
  so_interval :: "string option"
  so_width :: "int option"
  so_height :: "int option"
  so_theme :: "string option"

record ResponseData =
  rd_fileName :: string
  rd_publicUrl :: string
  rd_symbol :: string
  rd_interval :: string
  rd_width :: int
  rd_height :: int
  rd_theme :: string
  rd_uploadedAt :: string
  rd_size :: int
  rd_etag :: string

text \<open>
  The JSON bodies of the route: \<open>{success, data?, error?}\<close>, and the \<open>{error}\<close> of a missing
  configuration. A response is a body and a status.
\<close>

datatype json_body =
    ChartAPIResponse bool "ResponseData option" "string option"
  | ErrorOnly string

type_synonym response = "json_body \<times> int"

text \<open>The options the handler reads from the body, each with its default.\<close>

definition bodyOptions :: "ChartSnapshotOptions \<Rightarrow> ChartSnapshotOptions" where
  "bodyOptions body =
     \<lparr> so_symbol = Some (or_string (so_symbol body) ''BINANCE:BTCUSDT''),
       so_interval = Some (or_string (so_interval body) ''1D''),
       so_width = Some (or_number (so_width body) 800),
       so_height = Some (or_number (so_height body) 600),
       so_theme = Some (or_string (so_theme body) ''dark'') \<rparr>"

definition createChartRequest :: "ChartSnapshotOptions \<Rightarrow> ChartSnapshotRequest" where
  "createChartRequest options =
     \<lparr> sr_symbol = or_string (so_symbol options) ''BINANCE:BTCUSDT'',
       sr_interval = or_string (so_interval options) ''1D'',
       sr_width = or_number (so_width options) 800,
       sr_height = or_number (so_height options) 600,
       sr_theme = or_string (so_theme options) ''dark'' \<rparr>"

definition handleError :: "thrown \<Rightarrow> string \<times> int" where
  "handleError error =
     (if instanceofChartValidationError error then (message error, 400)
      else if instanceofChartGenerationError error then (message error, 502)
      else if instanceofStorageUploadError error then (''Failed to store chart image'', 503)
      else if instanceofError error then (message error, 500)
      else (''Unknown error'', 500))"

text \<open>The \<open>catch\<close> block of the handler.\<close>

definition postImage_catch :: "thrown \<Rightarrow> response" where
  "postImage_catch error =
     (let (errorMessage, statusCode) = handleError error
      in (ChartAPIResponse False None (Some errorMessage), statusCode))"

text \<open>
  The handler, from the environment, the outcome of reading the JSON body (its fields, or
  the error of \<open>c.req.json()\<close>), the provider and the clock.
\<close>

definition postImage ::
  "Env \<Rightarrow> thrown + ChartSnapshotOptions \<Rightarrow> fetcher \<Rightarrow> jsdate \<Rightarrow> response \<times> ext_call list"
where
  "postImage env json fetch now =
     (case json of
        Inl error \<Rightarrow> (postImage_catch error, [])
      | Inr body \<Rightarrow>
          (let options = bodyOptions body;
               customDomain = or_string (env_CUSTOM_DOMAIN env) ''your-custom-domain.com''
           in if \<not> truthy (env_CHART_IMG_API_KEY env)
              then ((ErrorOnly ''API key not configured'', 500), [])
              else case env_TRADINGVIEW_BUCKET env of
                None \<Rightarrow> ((ErrorOnly ''Storage not configured'', 500), [])
              | Some r2Bucket \<Rightarrow>
                  (let chartRequest = createChartRequest options;
                       (chartResult, fetched) = createSnapshot fetch now chartRequest
                   in case chartResult of
                        Inl error \<Rightarrow> (postImage_catch error, map (\<lambda>(b, t). Fetch b t) fetched)
                      | Inr chart \<Rightarrow>
                          (let (uploadResult, stored) =
                                 uploadChartImage r2Bucket customDomain (cg_imageBuffer chart)
                                   (sr_symbol chartRequest)
                                   \<lparr> um_interval = sr_interval chartRequest,
                                     um_theme = sr_theme chartRequest,
                                     um_width = sr_width chartRequest,
                                     um_height = sr_height chartRequest,
                                     um_generatedAt = cm_generatedAt (cg_metadata chart) \<rparr>;
                               calls = map (\<lambda>(b, t). Fetch b t) fetched @ stored
                           in case uploadResult of
                                Inl error \<Rightarrow> (postImage_catch error, calls)
                              | Inr up \<Rightarrow>
                                  ((ChartAPIResponse True
                                      (Some \<lparr> rd_fileName = up_fileName up,
                                              rd_publicUrl = up_publicUrl up,
                                              rd_symbol = sr_symbol chartRequest,
                                              rd_interval = sr_interval chartRequest,
                                              rd_width = sr_width chartRequest,
                                              rd_height = sr_height chartRequest,
                                              rd_theme = sr_theme chartRequest,
                                              rd_uploadedAt = up_uploadedAt up,
                                              rd_size = up_size up, rd_etag = up_etag up \<rparr>)
                                      None, 200),
                                   calls)))))"

section \<open>Vocabulary of the properties\<close>

text \<open>
  The storage key as the specification words it: \<open>charts/\<close>, the ISO timestamp with colons
  and dots replaced by dashes, the symbol with non-alphanumerics replaced by underscores,
  the interval, the theme and the dimensions, joined by underscores, and \<open>.png\<close>.
\<close>

definition spec_fileName :: "string \<Rightarrow> string \<Rightarrow> string \<Rightarrow> int \<Rightarrow> int \<Rightarrow> jsdate \<Rightarrow> string" where
  "spec_fileName symbol interval theme width height generatedAt =
     ''charts/''
     @ map (\<lambda>c. if c = CHR '':'' \<or> c = CHR ''.'' then CHR ''-'' else c) (toISOString generatedAt)
     @ ''_'' @ map (\<lambda>c. if isAlnum c then c else CHR ''_'') symbol
     @ ''_'' @ interval @ ''_'' @ theme
     @ ''_'' @ numberToString width @ ''x'' @ numberToString height @ ''.png''"

text \<open>The five fields \<open>parseStorageMetadata\<close> reads.\<close>

definition metadataFields :: "string list" where
  "metadataFields = [''symbol'', ''interval'', ''theme'', ''dimensions'', ''generatedAt'']"

text \<open>
  A store presented as a sequence of list pages: the bucket answers the first list call
  with the first page, each later call, made with the cursor of the page before, with the
  next page, and only the last page comes without a cursor. \<open>next_cursor\<close> is the cursor
  the adapter hands on; \<open>options\<close> gives the list options of the call for a cursor.
\<close>

definition next_cursor :: "R2ListResult \<Rightarrow> string option" where
  "next_cursor page = (if lr_truncated page then lr_cursor page else None)"

fun served_pages ::
  "R2Bucket \<Rightarrow> (string option \<Rightarrow> R2ListOptions) \<Rightarrow> string option \<Rightarrow> R2ListResult list \<Rightarrow> bool"
where
  "served_pages bucket options cursor [] = False"
| "served_pages bucket options cursor (page # pages) =
     (bucket_list bucket (options cursor) = Resolve page
      \<and> (if pages = [] then \<not> truthy (next_cursor page)
         else truthy (next_cursor page)
              \<and> served_pages bucket options (next_cursor page) pages))"


definition statistics_listOptions :: "string option \<Rightarrow> string option \<Rightarrow> R2ListOptions" where
  "statistics_listOptions symbol cursor =
     \<lparr> lo_prefix = (if truthy symbol then Some (getSymbolPrefix (or_string symbol [])) else None),
       lo_cursor = cursor, lo_limit = Some 1000,
       lo_include = Some [''httpMetadata'', ''customMetadata''] \<rparr>"





text \<open>The view of a stored object that \<open>getImageList\<close> returns.\<close>

definition imageDetailsOf :: "string \<Rightarrow> R2ObjectMetadata \<Rightarrow> ImageDetails" where
  "imageDetailsOf customDomain obj =
     \<lparr> im_fileName = ob_key obj, im_size = ob_size obj,
       im_uploadedAt = toISOString (ob_uploaded obj),
       im_publicUrl = buildPublicUrl customDomain (ob_key obj),
       im_metadata = parseStorageMetadata (ob_customMetadata obj), im_etag = [] \<rparr>"

section \<open>Example environments\<close>

text \<open>A provider that answers every call with a small image, and the time of the examples.\<close>

definition png_fetch :: fetcher where
  "png_fetch body timeout = FetchResponse [0x89, 0x50, 0x4E, 0x47] (Some ''image/png'')"

definition example_now :: jsdate where
  "example_now = 1700000000000"

definition example_object :: "string \<Rightarrow> int \<Rightarrow> jsdate \<Rightarrow> R2ObjectMetadata" where
  "example_object key bytes uploaded =
     \<lparr> ob_key = key, ob_size = bytes, ob_etag = ''etag'', ob_uploaded = uploaded,
       ob_httpMetadata = None, ob_customMetadata = None \<rparr>"

text \<open>A store without objects that accepts every upload.\<close>

definition empty_bucket :: R2Bucket where
  "empty_bucket =
     \<lparr> bucket_put =
         (\<lambda>key data options.
            Resolve (Some \<lparr> ob_key = key, ob_size = int (length data), ob_etag = ''etag'',
                            ob_uploaded = example_now,
                            ob_httpMetadata = po_httpMetadata options,
                            ob_customMetadata = po_customMetadata options \<rparr>)),
       bucket_list = (\<lambda>options. Resolve \<lparr> lr_objects = [], lr_truncated = False, lr_cursor = None \<rparr>),
       bucket_delete = (\<lambda>keys. Resolve ()) \<rparr>"

text \<open>A store whose uploads fail.\<close>

definition failing_bucket :: R2Bucket where
  "failing_bucket = empty_bucket \<lparr> bucket_put := (\<lambda>key data options. Reject (Error ''down'')) \<rparr>"




definition sized_image :: "string \<Rightarrow> int \<Rightarrow> ImageDetails" where
  "sized_image name bytes =
     \<lparr> im_fileName = name, im_size = bytes, im_uploadedAt = ''2023-11-14T22:13:20.000Z'',
       im_publicUrl = ''https://example.com/'' @ name, im_metadata = None, im_etag = [] \<rparr>"

text \<open>
  The timestamp part of a storage key, and the characters of an ISO timestamp: digits and
  the six marks of the format.
\<close>

definition timestampOf :: "jsdate \<Rightarrow> string" where
  "timestampOf t = replace_all (\<lambda>c. c = CHR '':'' \<or> c = CHR ''.'') (CHR ''-'') (toISOString t)"

definition isIsoChar :: "char \<Rightarrow> bool" where
  "isIsoChar c = (isDigit09 c \<or> c \<in> set ''+-T:.Z'')"

text \<open>
  The list options \<open>listChartImages\<close> hands to the bucket, and the view of a stored object it
  returns.
\<close>

definition chart_listOptions :: "ListChartOptions \<Rightarrow> R2ListOptions" where
  "chart_listOptions options =
     \<lparr> lo_prefix =
         (if truthy (lc_symbol options)
          then Some (getSymbolPrefix (or_string (lc_symbol options) [])) else None),
       lo_cursor = lc_cursor options,
       lo_limit = Some (or_number (lc_limit options) 50),
       lo_include = Some [''httpMetadata'', ''customMetadata''] \<rparr>"

definition listedImageOf :: "string \<Rightarrow> R2ObjectMetadata \<Rightarrow> ListedImage" where
  "listedImageOf customDomain obj =
     \<lparr> li_fileName = ob_key obj, li_publicUrl = buildPublicUrl customDomain (ob_key obj),
       li_size = ob_size obj, li_uploadedAt = toISOString (ob_uploaded obj),
       li_metadata = parseStorageMetadata (ob_customMetadata obj) \<rparr>"

text \<open>
  The metadata of the examples, and a store that lists the given objects on one page.
\<close>

definition example_metadata :: UploadMetadata where
  "example_metadata =
     \<lparr> um_interval = ''1D'', um_theme = ''dark'', um_width = 800, um_height = 600,
       um_generatedAt = example_now \<rparr>"

definition listing_bucket :: "R2ObjectMetadata list \<Rightarrow> R2Bucket" where
  "listing_bucket objs =
     empty_bucket
       \<lparr> bucket_list :=
           (\<lambda>options. Resolve \<lparr> lr_objects = objs, lr_truncated = False, lr_cursor = None \<rparr>) \<rparr>"


text \<open>
  The list options that \<open>getImageList\<close> makes \<open>listChartImages\<close> hand to the bucket, and an
  object of a given size uploaded at \<open>example_now\<close>.
\<close>

definition image_listOptions :: "ImageListOptions \<Rightarrow> R2ListOptions" where
  "image_listOptions options =
     chart_listOptions
       \<lparr> lc_symbol = io_symbol options, lc_limit = Some (or_number (io_limit options) 20),
         lc_cursor = io_cursor options \<rparr>"

definition sized_object :: "string \<Rightarrow> int \<Rightarrow> R2ObjectMetadata" where
  "sized_object key bytes = example_object key bytes example_now"

definition no_listOptions :: ImageListOptions where
  "no_listOptions =
     \<lparr> io_symbol = None, io_limit = None, io_cursor = None, io_sortBy = None,
       io_sortOrder = None \<rparr>"

section \<open>Evaluation of the constants and of example symbols\<close>

lemmas char_class_defs =
  isUpperAZ_def isLowerAZ_def isDigit09_def isAlnum_def isWordChar_def isPairChar_def
  isRequestSymbolChar_def toUpperCase_def toUpperChar_def

lemma toLocaleString_maxPixelCount: "toLocaleString 1920000 = ''1,920,000''"
  by (simp add: toLocaleString_def group3_def decimal.simps)

lemma maxPixelCount_value: "fst (maxSize CHART_CONFIG) * snd (maxSize CHART_CONFIG) = 1920000"
  by (simp add: CHART_CONFIG_def)

lemma validateSymbolFormat_DRIFT:
  "validateSymbolFormat ''DRIFT:SOL-PERP''
     = \<lparr> isValid = True, sf_exchange = Some ''DRIFT'', sf_pair = Some ''SOL-PERP'' \<rparr>"
  by (simp add: validateSymbolFormat_def char_class_defs)

lemma isRestrictedSymbol_DRIFT: "\<not> isRestrictedSymbol ''DRIFT:SOL-PERP''"
  by (simp add: isRestrictedSymbol_def RESTRICTED_PATTERNS_def char_class_defs)

lemma validateSolanaSymbol_DRIFT: "validateSolanaSymbol ''DRIFT:SOL-PERP'' = Inr ()"
  by (simp add: validateSolanaSymbol_def SUPPORTED_SOLANA_EXCHANGES_def SOLANA_EXCHANGES_def
        truthy_def or_string_def char_class_defs)

lemma validateSymbolFormat_TEST_FOO:
  "validateSymbolFormat ''TEST:FOO''
     = \<lparr> isValid = True, sf_exchange = Some ''TEST'', sf_pair = Some ''FOO'' \<rparr>"
  by (simp add: validateSymbolFormat_def char_class_defs)

lemma isRestrictedSymbol_TEST_FOO: "isRestrictedSymbol ''TEST:FOO''"
  by (simp add: isRestrictedSymbol_def RESTRICTED_PATTERNS_def char_class_defs)

section \<open>Business rules of the chart service\<close>

lemma validateSolanaSymbol_cases:
  "validateSolanaSymbol symbol = Inr ()
   \<or> validateSolanaSymbol symbol
       = Inl (ChartValidationError
                (''Invalid symbol format: '' @ symbol @ ''. Expected format: EXCHANGE:PAIR''))
   \<or> (\<exists>rest. validateSolanaSymbol symbol
                = Inl (ChartValidationError (''Unsupported exchange: '' @ rest)))"
  unfolding validateSolanaSymbol_def Let_def by simp

lemma validateSolanaSymbol_not_pixel:
  "validateSolanaSymbol symbol
     \<noteq> Inl (ChartValidationError ''Image size is too large. Maximum pixel count is 1,920,000'')"
  using validateSolanaSymbol_cases [of symbol] by auto

lemma validateSolanaSymbol_kind:
  "validateSolanaSymbol symbol = Inr ()
   \<or> (\<exists>m. validateSolanaSymbol symbol = Inl (ChartValidationError m))"
  using validateSolanaSymbol_cases [of symbol] by auto

text \<open>The rules in the order of the source, with the constants evaluated.\<close>

lemma validateBusinessRules_unfold:
  "validateBusinessRules request =
     (if \<not> isValid (validateSymbolFormat (sr_symbol request))
      then Inl (ChartValidationError
                  (''Invalid symbol format: '' @ sr_symbol request
                   @ ''. Expected format for Solana DEX: DRIFT:SOL-PERP, RAYDIUM:SOL/USDC, etc.''))
      else if isRestrictedSymbol (sr_symbol request)
      then Inl (ChartValidationError (''Symbol '' @ sr_symbol request @ '' is not supported''))
      else if sr_width request * sr_height request > 1920000
      then Inl (ChartValidationError ''Image size is too large. Maximum pixel count is 1,920,000'')
      else validateSolanaSymbol (sr_symbol request))"
  unfolding validateBusinessRules_def Let_def maxPixelCount_value toLocaleString_maxPixelCount
  by simp

text \<open>Every rejection of the business rules is a \<open>ChartValidationError\<close>.\<close>

lemma validateBusinessRules_kind:
  "validateBusinessRules request = Inr ()
   \<or> (\<exists>m. validateBusinessRules request = Inl (ChartValidationError m))"
  using validateSolanaSymbol_kind [of "sr_symbol request"]
  by (auto simp: validateBusinessRules_unfold)

lemma validateBusinessRules_ignores_interval:
  "validateBusinessRules (request\<lparr>sr_interval := i\<rparr>) = validateBusinessRules request"
  by (simp add: validateBusinessRules_def Let_def)

lemma validateBusinessRules_DRIFT:
  assumes "w * h \<le> 1920000"
  shows "validateBusinessRules
           \<lparr> sr_symbol = ''DRIFT:SOL-PERP'', sr_interval = i, sr_width = w, sr_height = h,
             sr_theme = t \<rparr> = Inr ()"
  using assms
  by (simp add: validateBusinessRules_unfold validateSymbolFormat_DRIFT isRestrictedSymbol_DRIFT
        validateSolanaSymbol_DRIFT)

lemma validateBusinessRules_TEST_FOO:
  "validateBusinessRules
     \<lparr> sr_symbol = ''TEST:FOO'', sr_interval = i, sr_width = w, sr_height = h, sr_theme = t \<rparr>
   = Inl (ChartValidationError ''Symbol TEST:FOO is not supported'')"
  by (simp add: validateBusinessRules_unfold validateSymbolFormat_TEST_FOO
        isRestrictedSymbol_TEST_FOO)

section \<open>Validation in the adapter and in createSnapshot\<close>

lemma validateRequest_bad_interval:
  assumes "\<not> isValidInterval (ci_interval request)"
  shows "\<exists>m. validateRequest request = Inl (ChartImageValidationError m)"
  using assms by (simp add: validateRequest_def)

lemma validateRequest_bad_interval_message:
  assumes "\<not> isValidInterval (ci_interval request)"
    and "ci_symbol request \<noteq> []" "list_all isRequestSymbolChar (ci_symbol request)"
    and "ci_interval request \<noteq> []"
  shows "validateRequest request
           = Inl (ChartImageValidationError (''Invalid interval: '' @ ci_interval request))"
  using assms by (simp add: validateRequest_def)

text \<open>A request the adapter rejects reaches no HTTP call.\<close>

lemma generateChartImage_invalid:
  assumes "validateRequest request = Inl e"
  shows "generateChartImage fetch request options = (Inl e, [])"
  using assms by (simp add: generateChartImage_def)

lemma createSnapshot_adapter_rejects:
  assumes "validateBusinessRules request = Inr ()"
    and "validateRequest (mapToChartImageRequest request) = Inl (ChartImageValidationError m)"
  shows "createSnapshot fetch now request = (Inl (ChartValidationError m), [])"
  using assms
  by (simp add: createSnapshot_def generateChartImage_invalid createSnapshot_catch_def)

text \<open>
  An error of the business rules is thrown inside the \<open>try\<close> of \<open>createSnapshot\<close> and goes
  through its \<open>catch\<close>, which keeps only the adapter's validation error as a validation
  error.
\<close>

lemma createSnapshot_rules_reject:
  assumes "validateBusinessRules request = Inl e"
  shows "createSnapshot fetch now request = (Inl (createSnapshot_catch e), [])"
  using assms by (simp add: createSnapshot_def)

lemma createSnapshot_catch_ChartValidationError:
  "createSnapshot_catch (ChartValidationError m)
     = ChartGenerationError (''Chart snapshot creation failed: '' @ m) (ChartValidationError m)"
  by (simp add: createSnapshot_catch_def messageOrUnknown_def)

text \<open>
  So no rejection of the business rules leaves \<open>createSnapshot\<close> as a
  \<open>ChartValidationError\<close>: each leaves it wrapped in a \<open>ChartGenerationError\<close>.
\<close>

lemma createSnapshot_rules_reject_wrapped:
  assumes "validateBusinessRules request \<noteq> Inr ()"
  shows "\<exists>m. createSnapshot fetch now request
               = (Inl (ChartGenerationError (''Chart snapshot creation failed: '' @ m)
                         (ChartValidationError m)), [])"
proof -
  from assms validateBusinessRules_kind [of request] obtain m where
    "validateBusinessRules request = Inl (ChartValidationError m)"
    by blast
  then show ?thesis
    using createSnapshot_rules_reject createSnapshot_catch_ChartValidationError by fastforce
qed

section \<open>The examples evaluated\<close>

lemma createSnapshot_TEST_FOO:
  "createSnapshot fetch now
     \<lparr> sr_symbol = ''TEST:FOO'', sr_interval = i, sr_width = w, sr_height = h, sr_theme = t \<rparr>
   = (Inl (ChartGenerationError
             ''Chart snapshot creation failed: Symbol TEST:FOO is not supported''
             (ChartValidationError ''Symbol TEST:FOO is not supported'')), [])"
  by (simp add: validateBusinessRules_TEST_FOO createSnapshot_def createSnapshot_catch_def
        messageOrUnknown_def)

lemma request_of_body:
  "createChartRequest
     (bodyOptions \<lparr> so_symbol = Some s, so_interval = None, so_width = None,
                    so_height = None, so_theme = None \<rparr>)
   = \<lparr> sr_symbol = (if s = [] then ''BINANCE:BTCUSDT'' else s), sr_interval = ''1D'',
       sr_width = 800, sr_height = 600, sr_theme = ''dark'' \<rparr>"
  by (simp add: createChartRequest_def bodyOptions_def or_string_def or_number_def)

lemma extractToken_DRIFT: "extractTokenFromSymbol ''DRIFT:SOL-PERP'' = ''SOL''"
  by (simp add: extractTokenFromSymbol_def)

lemma getTimeout_SOL: "getTimeoutForToken ''SOL'' = 15000"
  by (simp add: getTimeoutForToken_def CHART_CONFIG_def char_class_defs)

lemma validateRequest_DRIFT:
  "validateRequest \<lparr> ci_symbol = ''DRIFT:SOL-PERP'', ci_interval = ''1D'', ci_width = 800,
         ci_height = 600, ci_theme = ''dark'' \<rparr> = Inr ()"
  by (simp add: validateRequest_def isValidInterval_def char_class_defs)

lemma createSnapshot_DRIFT:
  "createSnapshot png_fetch now
     \<lparr> sr_symbol = ''DRIFT:SOL-PERP'', sr_interval = ''1D'', sr_width = 800, sr_height = 600,
       sr_theme = ''dark'' \<rparr>
   = (Inr \<lparr> cg_imageBuffer = [0x89, 0x50, 0x4E, 0x47], cg_contentType = ''image/png'',
           cg_size = 4,
           cg_metadata =
             \<lparr> cm_symbol = ''DRIFT:SOL-PERP'', cm_interval = ''1D'', cm_width = 800,
               cm_height = 600, cm_theme = ''dark'', cm_generatedAt = now \<rparr> \<rparr>,
      [(\<lparr> rb_symbol = ''DRIFT:SOL-PERP'', rb_interval = ''1D'', rb_width = 800,
          rb_height = 600, rb_theme = ''dark'', rb_format = ''png'',
          rb_backgroundColor = None, rb_timezone = None, rb_locale = Some ''en'' \<rparr>, 15000)])"
  by (simp add: createSnapshot_def validateBusinessRules_DRIFT mapToChartImageRequest_def
        generateChartImage_def validateRequest_DRIFT buildRequestBody_def makeApiRequest_def
        extractToken_DRIFT getTimeout_SOL png_fetch_def or_string_def or_number_def truthy_def
        defaultTimeout_def Let_def)

lemma uploadChartImage_failing_bucket:
  "fst (uploadChartImage failing_bucket customDomain imageBuffer symbol metadata)
   = Inl (StorageUploadError ''Failed to upload chart image: R2 upload failed: down''
            (Error ''R2 upload failed: down''))"
  by (simp add: uploadChartImage_def uploadObject_def failing_bucket_def empty_bucket_def
        messageOrUnknown_def Let_def truthy_def)

text \<open>
  C1. A snapshot request with a restricted symbol: the business rules throw the
  \<open>ChartValidationError\<close> saying that the symbol is not supported, \<open>createSnapshot\<close> throws a
  \<open>ChartGenerationError\<close> that wraps it, and the route answers 502, not 400. Evaluated at
  the symbol \<open>TEST:FOO\<close>, for any provider, clock, bucket and custom domain.
\<close>

theorem C1_restricted_symbol_answers_502:
  "validateBusinessRules
     \<lparr> sr_symbol = ''TEST:FOO'', sr_interval = ''1D'', sr_width = 800, sr_height = 600,
       sr_theme = ''dark'' \<rparr>
     = Inl (ChartValidationError ''Symbol TEST:FOO is not supported'')
   \<and> createSnapshot fetch now
       \<lparr> sr_symbol = ''TEST:FOO'', sr_interval = ''1D'', sr_width = 800, sr_height = 600,
         sr_theme = ''dark'' \<rparr>
     = (Inl (ChartGenerationError
               ''Chart snapshot creation failed: Symbol TEST:FOO is not supported''
               (ChartValidationError ''Symbol TEST:FOO is not supported'')), [])
   \<and> postImage
       \<lparr> env_CHART_IMG_API_KEY = Some ''key'', env_TRADINGVIEW_BUCKET = Some bucket,
         env_CUSTOM_DOMAIN = domain \<rparr>
       (Inr \<lparr> so_symbol = Some ''TEST:FOO'', so_interval = None, so_width = None,
              so_height = None, so_theme = None \<rparr>)
       fetch now
     = ((ChartAPIResponse False None
           (Some ''Chart snapshot creation failed: Symbol TEST:FOO is not supported''), 502), [])"
  by (simp add: validateBusinessRules_TEST_FOO createSnapshot_def createSnapshot_catch_def
        messageOrUnknown_def postImage_def bodyOptions_def createChartRequest_def or_string_def
        or_number_def truthy_def postImage_catch_def handleError_def Let_def)

text \<open>
  C2, as the claim states it, fails: the interval \<open>bogus\<close> is outside the whitelist, and the
  business rules of the domain service accept a request with it.
\<close>

theorem C2_domain_rules_accept_bad_interval:
  "\<not> isValidInterval ''bogus''
   \<and> validateBusinessRules
       \<lparr> sr_symbol = ''DRIFT:SOL-PERP'', sr_interval = ''bogus'', sr_width = 800,
         sr_height = 600, sr_theme = ''dark'' \<rparr> = Inr ()"
  by (simp add: isValidInterval_def validateBusinessRules_DRIFT)

text \<open>
  C2, amended. For every interval outside the whitelist the adapter's \<open>validateRequest\<close>
  raises a \<open>ChartImageValidationError\<close> (the one for the interval when the symbol is well
  formed and the interval is not empty) and \<open>generateChartImage\<close> makes no HTTP call. The
  business rules of the domain service do not look at the interval. \<open>createSnapshot\<close>
  fails on such a request without an HTTP call, and with a \<open>ChartValidationError\<close> when
  the business rules pass: the rejection is the adapter's.
\<close>

theorem C2_bad_interval_rejected_by_adapter:
  "(\<not> isValidInterval (ci_interval request)
     \<longrightarrow> (\<exists>m. validateRequest request = Inl (ChartImageValidationError m)
              \<and> generateChartImage fetch request options
                  = (Inl (ChartImageValidationError m), [])))
   \<and> (\<not> isValidInterval (ci_interval request) \<and> ci_symbol request \<noteq> []
        \<and> list_all isRequestSymbolChar (ci_symbol request) \<and> ci_interval request \<noteq> []
       \<longrightarrow> validateRequest request
             = Inl (ChartImageValidationError (''Invalid interval: '' @ ci_interval request)))
   \<and> validateBusinessRules (srequest\<lparr>sr_interval := i\<rparr>) = validateBusinessRules srequest
   \<and> (\<not> isValidInterval (sr_interval srequest)
       \<longrightarrow> (\<exists>e. createSnapshot fetch now srequest = (Inl e, []))
           \<and> (validateBusinessRules srequest = Inr ()
                \<longrightarrow> (\<exists>m. createSnapshot fetch now srequest
                            = (Inl (ChartValidationError m), []))))"
proof (intro conjI impI)
  assume bad: "\<not> isValidInterval (ci_interval request)"
  then obtain m where m: "validateRequest request = Inl (ChartImageValidationError m)"
    using validateRequest_bad_interval by blast
  then show "\<exists>m. validateRequest request = Inl (ChartImageValidationError m)
              \<and> generateChartImage fetch request options
                  = (Inl (ChartImageValidationError m), [])"
    using generateChartImage_invalid by blast
next
  assume "\<not> isValidInterval (ci_interval request) \<and> ci_symbol request \<noteq> []
        \<and> list_all isRequestSymbolChar (ci_symbol request) \<and> ci_interval request \<noteq> []"
  then show "validateRequest request
             = Inl (ChartImageValidationError (''Invalid interval: '' @ ci_interval request))"
    using validateRequest_bad_interval_message by blast
next
  show "validateBusinessRules (srequest\<lparr>sr_interval := i\<rparr>) = validateBusinessRules srequest"
    by (rule validateBusinessRules_ignores_interval)
next
  assume bad: "\<not> isValidInterval (sr_interval srequest)"
  then have "\<not> isValidInterval (ci_interval (mapToChartImageRequest srequest))"
    by (simp add: mapToChartImageRequest_def)
  then obtain m where
    m: "validateRequest (mapToChartImageRequest srequest) = Inl (ChartImageValidationError m)"
    using validateRequest_bad_interval by blast
  show "\<exists>e. createSnapshot fetch now srequest = (Inl e, [])"
  proof (cases "validateBusinessRules srequest")
    case (Inl e)
    then show ?thesis using createSnapshot_rules_reject by blast
  next
    case (Inr u)
    then show ?thesis using createSnapshot_adapter_rejects [OF _ m] by auto
  qed
  assume "validateBusinessRules srequest = Inr ()"
  then show "\<exists>m. createSnapshot fetch now srequest = (Inl (ChartValidationError m), [])"
    using createSnapshot_adapter_rejects [OF _ m] by blast
qed

theorem C2_bad_interval_rejected_by_adapter_witness:
  "\<not> isValidInterval ''bogus''
   \<and> list_all isRequestSymbolChar ''DRIFT:SOL-PERP''
   \<and> validateRequest
       \<lparr> ci_symbol = ''DRIFT:SOL-PERP'', ci_interval = ''bogus'', ci_width = 800,
         ci_height = 600, ci_theme = ''dark'' \<rparr>
     = Inl (ChartImageValidationError ''Invalid interval: bogus'')
   \<and> generateChartImage (\<lambda>body timeout. FetchAbort)
       \<lparr> ci_symbol = ''DRIFT:SOL-PERP'', ci_interval = ''bogus'', ci_width = 800,
         ci_height = 600, ci_theme = ''dark'' \<rparr>
       \<lparr> opt_timeout = None, opt_format = None, opt_backgroundColor = None,
         opt_timezone = None, opt_locale = None \<rparr>
     = (Inl (ChartImageValidationError ''Invalid interval: bogus''), [])
   \<and> validateBusinessRules
       \<lparr> sr_symbol = ''DRIFT:SOL-PERP'', sr_interval = ''bogus'', sr_width = 800,
         sr_height = 600, sr_theme = ''dark'' \<rparr> = Inr ()
   \<and> (\<exists>m. createSnapshot (\<lambda>body timeout. FetchAbort) 0
             \<lparr> sr_symbol = ''DRIFT:SOL-PERP'', sr_interval = ''bogus'', sr_width = 800,
               sr_height = 600, sr_theme = ''dark'' \<rparr>
           = (Inl (ChartValidationError m), []))"
proof -
  have bad: "\<not> isValidInterval ''bogus''"
    by (simp add: isValidInterval_def)
  have chars: "list_all isRequestSymbolChar ''DRIFT:SOL-PERP''"
    by (simp add: char_class_defs)
  have rules: "validateBusinessRules
       \<lparr> sr_symbol = ''DRIFT:SOL-PERP'', sr_interval = ''bogus'', sr_width = 800,
         sr_height = 600, sr_theme = ''dark'' \<rparr> = Inr ()"
    by (simp add: validateBusinessRules_DRIFT)
  show ?thesis
    using bad chars rules
      C2_bad_interval_rejected_by_adapter
        [where request = "\<lparr> ci_symbol = ''DRIFT:SOL-PERP'', ci_interval = ''bogus'',
                             ci_width = 800, ci_height = 600, ci_theme = ''dark'' \<rparr>"
           and fetch = "\<lambda>body timeout. FetchAbort"
           and options = "\<lparr> opt_timeout = None, opt_format = None, opt_backgroundColor = None,
                           opt_timezone = None, opt_locale = None \<rparr>"
           and srequest = "\<lparr> sr_symbol = ''DRIFT:SOL-PERP'', sr_interval = ''bogus'',
                            sr_width = 800, sr_height = 600, sr_theme = ''dark'' \<rparr>"
           and i = "''bogus''" and now = 0]
    by auto
qed

text \<open>
  The pixel budget in the business rules. With width and height inside the adapter's
  bounds: at most \<open>1600 * 1200\<close> pixels never raise the pixel-budget error, and for a
  well-formed, unrestricted symbol the outcome is the one of the exchange check that
  follows; one pixel more or more raises a \<open>ChartValidationError\<close>, and for such a symbol
  it is the pixel-budget error.
\<close>

lemma validateBusinessRules_pixel_budget:
  assumes "100 \<le> sr_width request" "sr_width request \<le> 2000"
      and "100 \<le> sr_height request" "sr_height request \<le> 2000"
  shows "(sr_width request * sr_height request
            \<le> fst (maxSize CHART_CONFIG) * snd (maxSize CHART_CONFIG)
           \<longrightarrow> validateBusinessRules request
                 \<noteq> Inl (ChartValidationError
                          ''Image size is too large. Maximum pixel count is 1,920,000'')
               \<and> (isValid (validateSymbolFormat (sr_symbol request))
                    \<and> \<not> isRestrictedSymbol (sr_symbol request)
                    \<longrightarrow> validateBusinessRules request = validateSolanaSymbol (sr_symbol request)))
       \<and> (sr_width request * sr_height request
            \<ge> fst (maxSize CHART_CONFIG) * snd (maxSize CHART_CONFIG) + 1
           \<longrightarrow> (\<exists>m. validateBusinessRules request = Inl (ChartValidationError m))
               \<and> (isValid (validateSymbolFormat (sr_symbol request))
                    \<and> \<not> isRestrictedSymbol (sr_symbol request)
                    \<longrightarrow> validateBusinessRules request
                        = Inl (ChartValidationError
                                 ''Image size is too large. Maximum pixel count is 1,920,000'')))"
  using validateSolanaSymbol_not_pixel [of "sr_symbol request"]
  by (simp add: maxPixelCount_value validateBusinessRules_unfold)

text \<open>
  Seen from \<open>createSnapshot\<close>, every request over the budget fails, without an HTTP call,
  and with a \<open>ChartGenerationError\<close>.
\<close>

lemma createSnapshot_over_budget:
  assumes "sr_width request * sr_height request > 1920000"
  shows "\<exists>m. createSnapshot fetch now request
               = (Inl (ChartGenerationError (''Chart snapshot creation failed: '' @ m)
                         (ChartValidationError m)), [])"
proof -
  from assms have "validateBusinessRules request \<noteq> Inr ()"
    using validateSolanaSymbol_kind [of "sr_symbol request"]
    by (auto simp: validateBusinessRules_unfold)
  then show ?thesis by (rule createSnapshot_rules_reject_wrapped)
qed

lemma validateBusinessRules_over_budget_example:
  "validateBusinessRules
     \<lparr> sr_symbol = ''DRIFT:SOL-PERP'', sr_interval = ''1D'', sr_width = 1601, sr_height = 1200,
       sr_theme = ''dark'' \<rparr>
   = Inl (ChartValidationError ''Image size is too large. Maximum pixel count is 1,920,000'')"
  by (simp add: validateBusinessRules_unfold validateSymbolFormat_DRIFT isRestrictedSymbol_DRIFT)

lemma createSnapshot_at_budget_example:
  "createSnapshot png_fetch now
     \<lparr> sr_symbol = ''DRIFT:SOL-PERP'', sr_interval = ''1D'', sr_width = 1600, sr_height = 1200,
       sr_theme = ''dark'' \<rparr>
   = (Inr \<lparr> cg_imageBuffer = [0x89, 0x50, 0x4E, 0x47], cg_contentType = ''image/png'',
           cg_size = 4,
           cg_metadata =
             \<lparr> cm_symbol = ''DRIFT:SOL-PERP'', cm_interval = ''1D'', cm_width = 1600,
               cm_height = 1200, cm_theme = ''dark'', cm_generatedAt = now \<rparr> \<rparr>,
      [(\<lparr> rb_symbol = ''DRIFT:SOL-PERP'', rb_interval = ''1D'', rb_width = 1600,
          rb_height = 1200, rb_theme = ''dark'', rb_format = ''png'',
          rb_backgroundColor = None, rb_timezone = None, rb_locale = Some ''en'' \<rparr>, 15000)])"
proof -
  have "validateRequest
          \<lparr> ci_symbol = ''DRIFT:SOL-PERP'', ci_interval = ''1D'', ci_width = 1600,
            ci_height = 1200, ci_theme = ''dark'' \<rparr> = Inr ()"
    by (simp add: validateRequest_def isValidInterval_def char_class_defs)
  then show ?thesis
    by (simp add: createSnapshot_def validateBusinessRules_DRIFT mapToChartImageRequest_def
          generateChartImage_def buildRequestBody_def makeApiRequest_def
          extractToken_DRIFT getTimeout_SOL png_fetch_def or_string_def or_number_def truthy_def
          defaultTimeout_def Let_def)
qed

text \<open>
  C3. The half of the claim at the budget holds: a request of exactly \<open>1600 * 1200\<close>
  pixels passes the business rules and \<open>createSnapshot\<close> returns the image. The half over
  the budget fails in the code: at 1601 by 1200 the business rules throw the
  \<open>ChartValidationError\<close> of the pixel budget, \<open>createSnapshot\<close> throws a
  \<open>ChartGenerationError\<close> that wraps it, and the route answers 502, not 400. Evaluated for
  any provider, clock, bucket and custom domain.
\<close>

theorem C3_over_budget_answers_502:
  "validateBusinessRules
     \<lparr> sr_symbol = ''DRIFT:SOL-PERP'', sr_interval = ''1D'', sr_width = 1600, sr_height = 1200,
       sr_theme = ''dark'' \<rparr> = Inr ()
   \<and> fst (createSnapshot png_fetch now
            \<lparr> sr_symbol = ''DRIFT:SOL-PERP'', sr_interval = ''1D'', sr_width = 1600,
              sr_height = 1200, sr_theme = ''dark'' \<rparr>)
     = Inr \<lparr> cg_imageBuffer = [0x89, 0x50, 0x4E, 0x47], cg_contentType = ''image/png'',
             cg_size = 4,
             cg_metadata =
               \<lparr> cm_symbol = ''DRIFT:SOL-PERP'', cm_interval = ''1D'', cm_width = 1600,
                 cm_height = 1200, cm_theme = ''dark'', cm_generatedAt = now \<rparr> \<rparr>
   \<and> validateBusinessRules
       \<lparr> sr_symbol = ''DRIFT:SOL-PERP'', sr_interval = ''1D'', sr_width = 1601,
         sr_height = 1200, sr_theme = ''dark'' \<rparr>
     = Inl (ChartValidationError ''Image size is too large. Maximum pixel count is 1,920,000'')
   \<and> createSnapshot fetch now
       \<lparr> sr_symbol = ''DRIFT:SOL-PERP'', sr_interval = ''1D'', sr_width = 1601,
         sr_height = 1200, sr_theme = ''dark'' \<rparr>
     = (Inl (ChartGenerationError
               ''Chart snapshot creation failed: Image size is too large. Maximum pixel count is 1,920,000''
               (ChartValidationError
                  ''Image size is too large. Maximum pixel count is 1,920,000'')), [])
   \<and> postImage
       \<lparr> env_CHART_IMG_API_KEY = Some ''key'', env_TRADINGVIEW_BUCKET = Some bucket,
         env_CUSTOM_DOMAIN = domain \<rparr>
       (Inr \<lparr> so_symbol = Some ''DRIFT:SOL-PERP'', so_interval = None, so_width = Some 1601,
              so_height = Some 1200, so_theme = None \<rparr>)
       fetch now
     = ((ChartAPIResponse False None
           (Some ''Chart snapshot creation failed: Image size is too large. Maximum pixel count is 1,920,000''),
         502), [])"
proof -
  have over: "createSnapshot fetch now
       \<lparr> sr_symbol = ''DRIFT:SOL-PERP'', sr_interval = ''1D'', sr_width = 1601,
         sr_height = 1200, sr_theme = ''dark'' \<rparr>
     = (Inl (ChartGenerationError
               ''Chart snapshot creation failed: Image size is too large. Maximum pixel count is 1,920,000''
               (ChartValidationError
                  ''Image size is too large. Maximum pixel count is 1,920,000'')), [])"
    by (simp add: validateBusinessRules_over_budget_example createSnapshot_def
          createSnapshot_catch_def messageOrUnknown_def)
  have request: "createChartRequest
       (bodyOptions \<lparr> so_symbol = Some ''DRIFT:SOL-PERP'', so_interval = None,
                      so_width = Some 1601, so_height = Some 1200, so_theme = None \<rparr>)
     = \<lparr> sr_symbol = ''DRIFT:SOL-PERP'', sr_interval = ''1D'', sr_width = 1601,
         sr_height = 1200, sr_theme = ''dark'' \<rparr>"
    by (simp add: createChartRequest_def bodyOptions_def or_string_def or_number_def)
  have route: "postImage
       \<lparr> env_CHART_IMG_API_KEY = Some ''key'', env_TRADINGVIEW_BUCKET = Some bucket,
         env_CUSTOM_DOMAIN = domain \<rparr>
       (Inr \<lparr> so_symbol = Some ''DRIFT:SOL-PERP'', so_interval = None, so_width = Some 1601,
              so_height = Some 1200, so_theme = None \<rparr>)
       fetch now
     = ((ChartAPIResponse False None
           (Some ''Chart snapshot creation failed: Image size is too large. Maximum pixel count is 1,920,000''),
         502), [])"
    by (simp add: postImage_def request over truthy_def postImage_catch_def handleError_def
          Let_def)
  from over route show ?thesis
    by (simp add: validateBusinessRules_DRIFT createSnapshot_at_budget_example
          validateBusinessRules_over_budget_example)
qed

section \<open>Error mapping of the route\<close>

lemma handleError_cases:
  "handleError (ChartValidationError m) = (m, 400)"
  "handleError (ChartGenerationError m c) = (m, 502)"
  "handleError (StorageUploadError m c) = (''Failed to store chart image'', 503)"
  "handleError NonError = (''Unknown error'', 500)"
  by (simp_all add: handleError_def)

lemma handleError_other:
  assumes "instanceofError e" "\<not> instanceofChartValidationError e"
    "\<not> instanceofChartGenerationError e" "\<not> instanceofStorageUploadError e"
  shows "handleError e = (message e, 500)"
  using assms by (simp add: handleError_def)

lemma postImage_catch_body:
  "postImage_catch e
     = (ChartAPIResponse False None (Some (fst (handleError e))), snd (handleError e))"
  by (simp add: postImage_catch_def split: prod.split)

text \<open>What \<open>createSnapshot\<close> or \<open>uploadChartImage\<close> throws reaches the handler's \<open>catch\<close>.\<close>

lemma postImage_createSnapshot_throws:
  assumes "truthy (env_CHART_IMG_API_KEY env)" "env_TRADINGVIEW_BUCKET env = Some bucket"
    and "fst (createSnapshot fetch now (createChartRequest (bodyOptions body))) = Inl e"
  shows "fst (postImage env (Inr body) fetch now) = postImage_catch e"
proof -
  obtain r calls where
    r: "createSnapshot fetch now (createChartRequest (bodyOptions body)) = (r, calls)"
    by (cases "createSnapshot fetch now (createChartRequest (bodyOptions body))")
  with assms(3) have "r = Inl e" by simp
  with r assms(1,2) show ?thesis by (simp add: postImage_def Let_def)
qed

lemma postImage_upload_throws:
  assumes "truthy (env_CHART_IMG_API_KEY env)" "env_TRADINGVIEW_BUCKET env = Some bucket"
    and "fst (createSnapshot fetch now (createChartRequest (bodyOptions body))) = Inr chart"
    and "fst (uploadChartImage bucket (or_string (env_CUSTOM_DOMAIN env) ''your-custom-domain.com'')
               (cg_imageBuffer chart) (sr_symbol (createChartRequest (bodyOptions body)))
               \<lparr> um_interval = sr_interval (createChartRequest (bodyOptions body)),
                 um_theme = sr_theme (createChartRequest (bodyOptions body)),
                 um_width = sr_width (createChartRequest (bodyOptions body)),
                 um_height = sr_height (createChartRequest (bodyOptions body)),
                 um_generatedAt = cm_generatedAt (cg_metadata chart) \<rparr>) = Inl e"
  shows "fst (postImage env (Inr body) fetch now) = postImage_catch e"
proof -
  let ?request = "createChartRequest (bodyOptions body)"
  let ?upload =
    "uploadChartImage bucket (or_string (env_CUSTOM_DOMAIN env) ''your-custom-domain.com'')
       (cg_imageBuffer chart) (sr_symbol ?request)
       \<lparr> um_interval = sr_interval ?request, um_theme = sr_theme ?request,
         um_width = sr_width ?request, um_height = sr_height ?request,
         um_generatedAt = cm_generatedAt (cg_metadata chart) \<rparr>"
  obtain r calls where r: "createSnapshot fetch now ?request = (r, calls)"
    by (cases "createSnapshot fetch now ?request")
  with assms(3) have r': "r = Inr chart" by simp
  obtain u stored where u: "?upload = (u, stored)" by (cases ?upload)
  with assms(4) have u': "u = Inl e" by simp
  from r r' u u' assms(1,2) show ?thesis by (simp add: postImage_def Let_def)
qed

lemma uploadChartImage_throws_StorageUploadError:
  assumes "fst (uploadChartImage bucket customDomain imageBuffer symbol metadata) = Inl e"
  shows "instanceofStorageUploadError e"
  using assms
  by (auto simp: uploadChartImage_def Let_def split: prod.splits sum.splits)

text \<open>
  C7. \<open>handleError\<close> maps a \<open>ChartValidationError\<close> to 400 and a \<open>ChartGenerationError\<close> to
  502, each with its message, a \<open>StorageUploadError\<close> to 503, any other \<open>Error\<close> to 500 with
  its message, and a thrown value that is not an \<open>Error\<close> to 500 with the generic message.
  The \<open>catch\<close> of the handler answers \<open>{success: false, error}\<close> with that message and that
  status, and it is what the handler answers when reading the body, \<open>createSnapshot\<close> or
  \<open>uploadChartImage\<close> throws.
\<close>

theorem C7_error_mapping:
  "handleError (ChartValidationError m) = (m, 400)
   \<and> handleError (ChartGenerationError m c) = (m, 502)
   \<and> snd (handleError (StorageUploadError m c)) = 503
   \<and> (instanceofError e \<and> \<not> instanceofChartValidationError e
        \<and> \<not> instanceofChartGenerationError e \<and> \<not> instanceofStorageUploadError e
        \<longrightarrow> handleError e = (message e, 500))
   \<and> handleError NonError = (''Unknown error'', 500)
   \<and> postImage_catch thrown
       = (ChartAPIResponse False None (Some (fst (handleError thrown))), snd (handleError thrown))
   \<and> postImage env (Inl thrown) fetch now = (postImage_catch thrown, [])
   \<and> (truthy (env_CHART_IMG_API_KEY env) \<and> env_TRADINGVIEW_BUCKET env = Some bucket
        \<and> fst (createSnapshot fetch now (createChartRequest (bodyOptions body))) = Inl thrown
       \<longrightarrow> fst (postImage env (Inr body) fetch now) = postImage_catch thrown)
   \<and> (truthy (env_CHART_IMG_API_KEY env) \<and> env_TRADINGVIEW_BUCKET env = Some bucket
        \<and> fst (createSnapshot fetch now (createChartRequest (bodyOptions body))) = Inr chart
        \<and> fst (uploadChartImage bucket
                  (or_string (env_CUSTOM_DOMAIN env) ''your-custom-domain.com'')
                  (cg_imageBuffer chart) (sr_symbol (createChartRequest (bodyOptions body)))
                  \<lparr> um_interval = sr_interval (createChartRequest (bodyOptions body)),
                    um_theme = sr_theme (createChartRequest (bodyOptions body)),
                    um_width = sr_width (createChartRequest (bodyOptions body)),
                    um_height = sr_height (createChartRequest (bodyOptions body)),
                    um_generatedAt = cm_generatedAt (cg_metadata chart) \<rparr>) = Inl thrown
       \<longrightarrow> fst (postImage env (Inr body) fetch now) = postImage_catch thrown
           \<and> snd (postImage_catch thrown) = 503)"
proof (intro conjI impI)
  assume "instanceofError e \<and> \<not> instanceofChartValidationError e
        \<and> \<not> instanceofChartGenerationError e \<and> \<not> instanceofStorageUploadError e"
  then show "handleError e = (message e, 500)"
    using handleError_other by blast
next
  assume "truthy (env_CHART_IMG_API_KEY env) \<and> env_TRADINGVIEW_BUCKET env = Some bucket
        \<and> fst (createSnapshot fetch now (createChartRequest (bodyOptions body))) = Inl thrown"
  then show "fst (postImage env (Inr body) fetch now) = postImage_catch thrown"
    using postImage_createSnapshot_throws by blast
next
  assume up: "truthy (env_CHART_IMG_API_KEY env) \<and> env_TRADINGVIEW_BUCKET env = Some bucket
        \<and> fst (createSnapshot fetch now (createChartRequest (bodyOptions body))) = Inr chart
        \<and> fst (uploadChartImage bucket
                  (or_string (env_CUSTOM_DOMAIN env) ''your-custom-domain.com'')
                  (cg_imageBuffer chart) (sr_symbol (createChartRequest (bodyOptions body)))
                  \<lparr> um_interval = sr_interval (createChartRequest (bodyOptions body)),
                    um_theme = sr_theme (createChartRequest (bodyOptions body)),
                    um_width = sr_width (createChartRequest (bodyOptions body)),
                    um_height = sr_height (createChartRequest (bodyOptions body)),
                    um_generatedAt = cm_generatedAt (cg_metadata chart) \<rparr>) = Inl thrown"
  then show "fst (postImage env (Inr body) fetch now) = postImage_catch thrown"
    using postImage_upload_throws by blast
  from up have "instanceofStorageUploadError thrown"
    using uploadChartImage_throws_StorageUploadError by blast
  then show "snd (postImage_catch thrown) = 503"
    by (cases thrown) (simp_all add: postImage_catch_body handleError_cases)
qed (simp_all add: handleError_cases postImage_catch_body postImage_def)

theorem C7_error_mapping_witness:
  "instanceofError (StorageListError ''boom'' NonError)
   \<and> \<not> instanceofChartValidationError (StorageListError ''boom'' NonError)
   \<and> \<not> instanceofChartGenerationError (StorageListError ''boom'' NonError)
   \<and> \<not> instanceofStorageUploadError (StorageListError ''boom'' NonError)
   \<and> handleError (StorageListError ''boom'' NonError) = (''boom'', 500)
   \<and> truthy (Some ''key'')
   \<and> fst (postImage
            \<lparr> env_CHART_IMG_API_KEY = Some ''key'', env_TRADINGVIEW_BUCKET = Some failing_bucket,
              env_CUSTOM_DOMAIN = None \<rparr>
            (Inr \<lparr> so_symbol = Some ''TEST:FOO'', so_interval = None, so_width = None,
                   so_height = None, so_theme = None \<rparr>)
            png_fetch example_now)
     = (ChartAPIResponse False None
          (Some ''Chart snapshot creation failed: Symbol TEST:FOO is not supported''), 502)
   \<and> fst (postImage
            \<lparr> env_CHART_IMG_API_KEY = Some ''key'', env_TRADINGVIEW_BUCKET = Some failing_bucket,
              env_CUSTOM_DOMAIN = None \<rparr>
            (Inr \<lparr> so_symbol = Some ''DRIFT:SOL-PERP'', so_interval = None, so_width = None,
                   so_height = None, so_theme = None \<rparr>)
            png_fetch example_now)
     = (ChartAPIResponse False None (Some ''Failed to store chart image''), 503)"
proof -
  let ?env = "\<lparr> env_CHART_IMG_API_KEY = Some ''key'', env_TRADINGVIEW_BUCKET = Some failing_bucket,
                env_CUSTOM_DOMAIN = None \<rparr>"
  let ?restricted = "\<lparr> so_symbol = Some ''TEST:FOO'', so_interval = None, so_width = None,
                       so_height = None, so_theme = None \<rparr>"
  let ?supported = "\<lparr> so_symbol = Some ''DRIFT:SOL-PERP'', so_interval = None, so_width = None,
                      so_height = None, so_theme = None \<rparr>"
  let ?generation =
    "ChartGenerationError ''Chart snapshot creation failed: Symbol TEST:FOO is not supported''
       (ChartValidationError ''Symbol TEST:FOO is not supported'')"
  let ?upload =
    "StorageUploadError ''Failed to upload chart image: R2 upload failed: down''
       (Error ''R2 upload failed: down'')"
  have key: "truthy (Some ''key'')"
    by (simp add: truthy_def)
  have other: "handleError (StorageListError ''boom'' NonError) = (''boom'', 500)"
    using C7_error_mapping [where e = "StorageListError ''boom'' NonError"] by simp
  have "fst (postImage ?env (Inr ?restricted) png_fetch example_now) = postImage_catch ?generation"
    using C7_error_mapping
      [where env = ?env and bucket = failing_bucket and body = ?restricted
         and fetch = png_fetch and now = example_now and thrown = ?generation]
    by (simp add: key request_of_body createSnapshot_TEST_FOO)
  then have restricted:
    "fst (postImage ?env (Inr ?restricted) png_fetch example_now)
       = (ChartAPIResponse False None
            (Some ''Chart snapshot creation failed: Symbol TEST:FOO is not supported''), 502)"
    by (simp add: postImage_catch_body handleError_cases)
  have "fst (postImage ?env (Inr ?supported) png_fetch example_now) = postImage_catch ?upload"
    using C7_error_mapping
      [where env = ?env and bucket = failing_bucket and body = ?supported
         and fetch = png_fetch and now = example_now and thrown = ?upload
         and chart = "\<lparr> cg_imageBuffer = [0x89, 0x50, 0x4E, 0x47], cg_contentType = ''image/png'',
                        cg_size = 4,
                        cg_metadata =
                          \<lparr> cm_symbol = ''DRIFT:SOL-PERP'', cm_interval = ''1D'', cm_width = 800,
                            cm_height = 600, cm_theme = ''dark'',
                            cm_generatedAt = example_now \<rparr> \<rparr>"]
    by (simp add: key request_of_body createSnapshot_DRIFT uploadChartImage_failing_bucket)
  then have upload:
    "fst (postImage ?env (Inr ?supported) png_fetch example_now)
       = (ChartAPIResponse False None (Some ''Failed to store chart image''), 503)"
    by (simp add: postImage_catch_body handleError_cases)
  from key other restricted upload show ?thesis by simp
qed

section \<open>Storage keys\<close>

lemma startsWith_iff_append: "startsWith s p \<longleftrightarrow> (\<exists>r. s = p @ r)"
  by (induction s p rule: startsWith.induct) auto

lemma decimal_digits: "set (decimal n) \<subseteq> set ''0123456789''"
proof (induction n rule: decimal.induct)
  case (1 n)
  have digit: "''0123456789'' ! k \<in> set ''0123456789''" if "k < 10" for k
    using that by (intro nth_mem) simp
  show ?case
  proof (cases "n < 10")
    case True
    then show ?thesis
      using digit [of n] by (subst decimal.simps) simp
  next
    case False
    have "n mod 10 < 10" by simp
    with False 1 digit [of "n mod 10"] show ?thesis
      by (subst decimal.simps) simp
  qed
qed

lemma decimal_isDigit09:
  assumes "c \<in> set (decimal n)"
  shows "isDigit09 c"
  using assms decimal_digits [of n] unfolding isDigit09_def by blast

lemma pad_isDigit09:
  assumes "c \<in> set (pad w n)"
  shows "isDigit09 c"
proof -
  have "isDigit09 (CHR ''0'')" by (simp add: isDigit09_def)
  with assms decimal_isDigit09 show ?thesis by (auto simp: pad_def)
qed

lemma pad_isIsoChar:
  assumes "c \<in> set (pad w n)"
  shows "isIsoChar c"
  using pad_isDigit09 [OF assms] by (simp add: isIsoChar_def)

lemma isoYear_isIsoChar:
  assumes "c \<in> set (isoYear y)"
  shows "isIsoChar c"
proof (cases "0 \<le> y \<and> y \<le> 9999")
  case True
  with assms show ?thesis by (auto simp: isoYear_def intro: pad_isIsoChar)
next
  case False
  with assms have "c \<in> set ''-+'' \<or> c \<in> set (pad 6 (nat \<bar>y\<bar>))"
    by (auto simp: isoYear_def split: if_splits)
  then show ?thesis
  proof
    assume "c \<in> set ''-+''"
    then show ?thesis by (auto simp: isIsoChar_def)
  next
    assume "c \<in> set (pad 6 (nat \<bar>y\<bar>))"
    then show ?thesis by (rule pad_isIsoChar)
  qed
qed

lemma toISOString_isIsoChar:
  assumes "c \<in> set (toISOString t)"
  shows "isIsoChar c"
proof -
  have mark: "isIsoChar m" if "m \<in> set ''-T:.Z''" for m
    using that by (auto simp: isIsoChar_def)
  from assms show ?thesis
    unfolding toISOString_def Let_def case_prod_beta
    by (auto intro: pad_isIsoChar isoYear_isIsoChar mark)
qed

lemma underscore_not_isIsoChar: "\<not> isIsoChar (CHR ''_'')"
  by (simp add: isIsoChar_def isDigit09_def)

lemma toISOString_has_dash: "CHR ''-'' \<in> set (toISOString t)"
  unfolding toISOString_def Let_def case_prod_beta by simp

lemma timestamp_no_underscore: "CHR ''_'' \<notin> set (timestampOf t)"
  using toISOString_isIsoChar [of "CHR ''_''" t] underscore_not_isIsoChar
  by (auto simp: timestampOf_def replace_all_def)

lemma timestamp_has_dash: "CHR ''-'' \<in> set (timestampOf t)"
  using toISOString_has_dash [of t] by (force simp: timestampOf_def replace_all_def)

lemma not_alnum_punctuation: "\<not> isAlnum (CHR '':'')" "\<not> isAlnum (CHR ''-'')"
  by (simp_all add: char_class_defs)

lemma cleanSymbol_no_dash:
  "CHR ''-'' \<notin> set (replace_all (\<lambda>c. \<not> isAlnum c) (CHR ''_'') symbol)"
  using not_alnum_punctuation by (auto simp: replace_all_def)

lemma cleanSymbol_has_underscore:
  assumes "CHR '':'' \<in> set symbol"
  shows "CHR ''_'' \<in> set (replace_all (\<lambda>c. \<not> isAlnum c) (CHR ''_'') symbol)"
  using assms not_alnum_punctuation by (force simp: replace_all_def)

lemma generateFileName_shape:
  "\<exists>rest. generateFileName symbol metadata
            = ''charts/'' @ timestampOf (um_generatedAt metadata) @ ''_'' @ rest"
  by (simp add: generateFileName_def timestampOf_def Let_def)

lemma key_never_starts_with_prefix:
  assumes "CHR '':'' \<in> set symbol"
  shows "\<not> startsWith (generateFileName symbol' metadata) (getSymbolPrefix symbol)"
proof
  let ?clean = "replace_all (\<lambda>c. \<not> isAlnum c) (CHR ''_'') symbol"
  let ?ts = "timestampOf (um_generatedAt metadata)"
  assume "startsWith (generateFileName symbol' metadata) (getSymbolPrefix symbol)"
  then obtain r where r: "generateFileName symbol' metadata = getSymbolPrefix symbol @ r"
    using startsWith_iff_append by blast
  obtain rest where "generateFileName symbol' metadata = ''charts/'' @ ?ts @ ''_'' @ rest"
    using generateFileName_shape by blast
  with r have "?ts @ (''_'' @ rest) = ?clean @ r"
    by (simp add: getSymbolPrefix_def)
  then consider us where "?ts = ?clean @ us" | us where "?ts @ us = ?clean"
    by (auto simp: append_eq_append_conv2)
  then show False
  proof cases
    case 1
    then have "set ?clean \<subseteq> set ?ts"
      by (metis set_append Un_upper1)
    with cleanSymbol_has_underscore [OF assms] timestamp_no_underscore show False
      by blast
  next
    case 2
    then have "set ?ts \<subseteq> set ?clean"
      by (metis set_append Un_upper1)
    with timestamp_has_dash cleanSymbol_no_dash show False
      by blast
  qed
qed

lemma generateFileName_spec:
  "generateFileName symbol metadata
     = spec_fileName symbol (um_interval metadata) (um_theme metadata) (um_width metadata)
         (um_height metadata) (um_generatedAt metadata)"
proof -
  have "replace_all (\<lambda>c. \<not> isAlnum c) (CHR ''_'') symbol
          = map (\<lambda>c. if isAlnum c then c else CHR ''_'') symbol"
    by (simp add: replace_all_def)
  then show ?thesis
    by (simp add: generateFileName_def spec_fileName_def replace_all_def Let_def)
qed

lemma replicate_small: "replicate 1 x = [x]" "replicate 2 x = [x, x]" "replicate 3 x = [x, x, x]"
  by (simp_all add: numeral_2_eq_2 numeral_3_eq_3)

lemma civil_from_days_example: "civil_from_days 19675 = (2023, 11, 14)"
  by (simp add: civil_from_days_def cong: let_weak_cong)

lemma toISOString_example: "toISOString example_now = ''2023-11-14T22:13:20.000Z''"
  by (simp add: toISOString_def example_now_def msPerDay_def civil_from_days_example isoYear_def
        pad_def decimal.simps replicate_small cong: let_weak_cong)

lemma generateFileName_example:
  "generateFileName ''DRIFT:SOL-PERP''
     \<lparr> um_interval = ''1D'', um_theme = ''dark'', um_width = 800, um_height = 600,
       um_generatedAt = example_now \<rparr>
   = ''charts/2023-11-14T22-13-20-000Z_DRIFT_SOL_PERP_1D_dark_800x600.png''"
  by (simp add: generateFileName_def toISOString_example replace_all_def numberToString_def
        decimal.simps char_class_defs Let_def)

lemma or_number_nonzero:
  assumes "d \<noteq> 0"
  shows "or_number v d \<noteq> 0" "or_number (Some (or_number v d)) d' = or_number v d"
  using assms by (auto simp: or_number_def split: option.splits)

text \<open>The one call of an upload: a \<open>put\<close> under the generated key, with the metadata.\<close>

lemma uploadChartImage_calls:
  "snd (uploadChartImage bucket customDomain imageBuffer symbol metadata)
     = [R2Put (generateFileName symbol metadata) imageBuffer
          \<lparr> po_httpMetadata =
              Some \<lparr> hm_contentType = Some ''image/png'',
                     hm_cacheControl = Some ''public, max-age=3600'' \<rparr>,
            po_customMetadata = Some (buildStorageMetadata symbol metadata) \<rparr>]"
  by (simp add: uploadChartImage_def uploadObject_def truthy_def Let_def
           split: prod.splits sum.splits outcome.splits option.splits)

text \<open>The one call of a listing: a \<open>list\<close> with the prefix of the symbol filter.\<close>

lemma listChartImages_calls:
  "snd (listChartImages bucket customDomain options)
     = [R2List
          \<lparr> lo_prefix =
              (if truthy (lc_symbol options)
               then Some (getSymbolPrefix (or_string (lc_symbol options) [])) else None),
            lo_cursor = lc_cursor options,
            lo_limit = Some (or_number (lc_limit options) 50),
            lo_include = Some [''httpMetadata'', ''customMetadata''] \<rparr>]"
  by (simp add: listChartImages_def listObjects_def or_number_nonzero Let_def
           split: prod.splits sum.splits outcome.splits)

text \<open>
  C5. The key \<open>generateFileName\<close> returns is exactly the one the specification words:
  \<open>charts/\<close>, the ISO timestamp of \<open>generatedAt\<close> with every colon and dot replaced by a
  dash, the symbol with every non-alphanumeric character replaced by an underscore, the
  interval, the theme and \<open>width x height\<close>, joined by underscores, and \<open>.png\<close>. It is a
  function of these inputs alone, it is the key \<open>uploadChartImage\<close> stores the image
  under, and for \<open>DRIFT:SOL-PERP\<close>, \<open>1D\<close>, \<open>dark\<close>, 800 by 600 at
  2023-11-14T22:13:20.000Z it is the key shown.
\<close>

theorem C5_storage_key:
  "generateFileName symbol
     \<lparr> um_interval = interval, um_theme = theme, um_width = width, um_height = height,
       um_generatedAt = generatedAt \<rparr>
     = spec_fileName symbol interval theme width height generatedAt
   \<and> (\<exists>options.
         snd (uploadChartImage bucket customDomain imageBuffer symbol
                \<lparr> um_interval = interval, um_theme = theme, um_width = width,
                  um_height = height, um_generatedAt = generatedAt \<rparr>)
           = [R2Put (spec_fileName symbol interval theme width height generatedAt)
                imageBuffer options])
   \<and> spec_fileName ''DRIFT:SOL-PERP'' ''1D'' ''dark'' 800 600 example_now
     = ''charts/2023-11-14T22-13-20-000Z_DRIFT_SOL_PERP_1D_dark_800x600.png''"
  using generateFileName_example
  by (simp add: generateFileName_spec uploadChartImage_calls)

text \<open>
  C4. For a symbol that contains a colon, no key that \<open>generateFileName\<close> produces, for
  this or any other symbol and any metadata, begins with \<open>getSymbolPrefix\<close> of the symbol:
  after \<open>charts/\<close> the key goes on with the timestamp, the prefix with the cleaned symbol.
  \<open>listChartImages\<close> with that symbol as filter lists with exactly this prefix, and
  \<open>uploadChartImage\<close> stores under exactly such keys, so the filter matches none of them.
\<close>

theorem C4_symbol_prefix_matches_no_key:
  assumes "CHR '':'' \<in> set symbol"
  shows "\<not> startsWith (generateFileName symbol metadata) (getSymbolPrefix symbol)
       \<and> (\<forall>symbol' metadata'.
             \<not> startsWith (generateFileName symbol' metadata') (getSymbolPrefix symbol))
       \<and> (\<exists>options.
             snd (listChartImages bucket customDomain
                    \<lparr> lc_symbol = Some symbol, lc_limit = limit, lc_cursor = cursor \<rparr>)
               = [R2List options]
             \<and> lo_prefix options = Some (getSymbolPrefix symbol))
       \<and> (\<exists>key options.
             snd (uploadChartImage bucket customDomain imageBuffer symbol' metadata')
               = [R2Put key imageBuffer options]
             \<and> \<not> startsWith key (getSymbolPrefix symbol))"
proof -
  from assms have nonempty: "symbol \<noteq> []" by auto
  have "\<not> startsWith (generateFileName s m) (getSymbolPrefix symbol)" for s m
    using key_never_starts_with_prefix [OF assms] .
  moreover have "truthy (Some symbol)" "or_string (Some symbol) [] = symbol"
    using nonempty by (simp_all add: truthy_def or_string_def)
  ultimately show ?thesis
    by (simp add: listChartImages_calls uploadChartImage_calls)
qed

theorem C4_symbol_prefix_matches_no_key_witness:
  "CHR '':'' \<in> set ''DRIFT:SOL-PERP''
   \<and> getSymbolPrefix ''DRIFT:SOL-PERP'' = ''charts/DRIFT_SOL_PERP''
   \<and> generateFileName ''DRIFT:SOL-PERP''
       \<lparr> um_interval = ''1D'', um_theme = ''dark'', um_width = 800, um_height = 600,
         um_generatedAt = example_now \<rparr>
     = ''charts/2023-11-14T22-13-20-000Z_DRIFT_SOL_PERP_1D_dark_800x600.png''
   \<and> \<not> startsWith ''charts/2023-11-14T22-13-20-000Z_DRIFT_SOL_PERP_1D_dark_800x600.png''
         ''charts/DRIFT_SOL_PERP''"
proof -
  have colon: "CHR '':'' \<in> set ''DRIFT:SOL-PERP''" by simp
  have prefix: "getSymbolPrefix ''DRIFT:SOL-PERP'' = ''charts/DRIFT_SOL_PERP''"
    by (simp add: getSymbolPrefix_def replace_all_def char_class_defs)
  show ?thesis
    using colon prefix generateFileName_example
      C4_symbol_prefix_matches_no_key
        [OF colon,
         where metadata = "\<lparr> um_interval = ''1D'', um_theme = ''dark'', um_width = 800,
                             um_height = 600, um_generatedAt = example_now \<rparr>"]
    by simp
qed

section \<open>Stored metadata\<close>

lemma listChartImages_resolved:
  assumes "bucket_list bucket (chart_listOptions options) = Resolve page"
  shows "listChartImages bucket customDomain options
           = (Inr \<lparr> ls_images = map (listedImageOf customDomain) (lr_objects page),
                    ls_hasMore = lr_truncated page, ls_nextCursor = next_cursor page \<rparr>,
              [R2List (chart_listOptions options)])"
proof -
  have "listObjects bucket
          \<lparr> lo_prefix = lo_prefix (chart_listOptions options), lo_cursor = lc_cursor options,
            lo_limit = Some (or_number (lc_limit options) 50),
            lo_include = Some [''httpMetadata'', ''customMetadata''] \<rparr>
        = (Inr \<lparr> lr_objects = lr_objects page, lr_truncated = lr_truncated page,
                 lr_cursor = next_cursor page \<rparr>,
           [R2List (chart_listOptions options)])"
    using assms
    by (simp add: listObjects_def chart_listOptions_def or_number_nonzero next_cursor_def)
  then show ?thesis
    by (simp add: listChartImages_def chart_listOptions_def listedImageOf_def Let_def
          cong: map_cong)
qed

lemma buildStorageMetadata_fields:
  "map_of (buildStorageMetadata symbol metadata) ''symbol'' = Some symbol"
  "map_of (buildStorageMetadata symbol metadata) ''interval'' = Some (um_interval metadata)"
  "map_of (buildStorageMetadata symbol metadata) ''theme'' = Some (um_theme metadata)"
  "map_of (buildStorageMetadata symbol metadata) ''dimensions''
     = Some (numberToString (um_width metadata) @ ''x'' @ numberToString (um_height metadata))"
  "map_of (buildStorageMetadata symbol metadata) ''generatedAt''
     = Some (toISOString (um_generatedAt metadata))"
  by (simp_all add: buildStorageMetadata_def)

lemma toISOString_nonempty: "toISOString t \<noteq> []"
  using toISOString_has_dash [of t] by auto

lemma parseStorageMetadata_None_iff:
  "parseStorageMetadata (Some cm) = None
     \<longleftrightarrow> (\<exists>field \<in> set metadataFields. \<not> truthy (map_of cm field))"
  by (simp add: parseStorageMetadata_def metadataFields_def Let_def)

lemma parseStorageMetadata_roundtrip:
  assumes "symbol \<noteq> []" "um_interval metadata \<noteq> []" "um_theme metadata \<noteq> []"
  shows "parseStorageMetadata (Some (buildStorageMetadata symbol metadata))
           = Some \<lparr> sm_symbol = symbol, sm_interval = um_interval metadata,
                    sm_theme = um_theme metadata,
                    sm_dimensions =
                      numberToString (um_width metadata) @ ''x''
                      @ numberToString (um_height metadata),
                    sm_generatedAt = toISOString (um_generatedAt metadata) \<rparr>"
  using assms toISOString_nonempty [of "um_generatedAt metadata"]
  by (simp add: parseStorageMetadata_def buildStorageMetadata_fields truthy_def or_string_def
        Let_def)

text \<open>
  C8, as the claim states it, fails: uploaded with an empty symbol, the metadata has all
  five fields, and \<open>parseStorageMetadata\<close> returns \<open>undefined\<close> for it.
\<close>

theorem C8_empty_symbol_parses_to_undefined:
  "map_of (buildStorageMetadata []
             \<lparr> um_interval = ''1D'', um_theme = ''dark'', um_width = 800, um_height = 600,
               um_generatedAt = example_now \<rparr>) ''symbol'' = Some []
   \<and> parseStorageMetadata
       (Some (buildStorageMetadata []
                \<lparr> um_interval = ''1D'', um_theme = ''dark'', um_width = 800, um_height = 600,
                  um_generatedAt = example_now \<rparr>)) = None"
  by (simp add: parseStorageMetadata_def buildStorageMetadata_fields truthy_def Let_def)

text \<open>
  C8, amended. \<open>uploadChartImage\<close> stores the object with custom metadata that has all five
  fields. When symbol, interval and theme are not empty, \<open>parseStorageMetadata\<close> returns the
  five values for it. For any custom metadata, \<open>parseStorageMetadata\<close> returns \<open>undefined\<close>
  exactly when one of the five fields is missing or empty, and it returns \<open>undefined\<close> for
  absent custom metadata. The listed view of an object has as \<open>metadata\<close> what
  \<open>parseStorageMetadata\<close> returns for the custom metadata of the object.
\<close>

theorem C8_metadata_roundtrip:
  "(\<exists>key httpMetadata.
      snd (uploadChartImage bucket customDomain imageBuffer symbol metadata)
        = [R2Put key imageBuffer
             \<lparr> po_httpMetadata = httpMetadata,
               po_customMetadata = Some (buildStorageMetadata symbol metadata) \<rparr>])
   \<and> (\<forall>field \<in> set metadataFields.
         map_of (buildStorageMetadata symbol metadata) field \<noteq> None)
   \<and> (symbol \<noteq> [] \<and> um_interval metadata \<noteq> [] \<and> um_theme metadata \<noteq> []
       \<longrightarrow> parseStorageMetadata (Some (buildStorageMetadata symbol metadata))
             = Some \<lparr> sm_symbol = symbol, sm_interval = um_interval metadata,
                      sm_theme = um_theme metadata,
                      sm_dimensions =
                        numberToString (um_width metadata) @ ''x''
                        @ numberToString (um_height metadata),
                      sm_generatedAt = toISOString (um_generatedAt metadata) \<rparr>)
   \<and> (parseStorageMetadata (Some cm) = None
        \<longleftrightarrow> (\<exists>field \<in> set metadataFields. map_of cm field = None \<or> map_of cm field = Some []))
   \<and> parseStorageMetadata None = None
   \<and> (bucket_list bucket (chart_listOptions options) = Resolve page
       \<longrightarrow> (\<exists>listed. fst (listChartImages bucket customDomain options) = Inr listed
             \<and> map li_metadata (ls_images listed)
                 = map (\<lambda>obj. parseStorageMetadata (ob_customMetadata obj)) (lr_objects page)))"
proof (intro conjI impI)
  show "\<exists>key httpMetadata.
      snd (uploadChartImage bucket customDomain imageBuffer symbol metadata)
        = [R2Put key imageBuffer
             \<lparr> po_httpMetadata = httpMetadata,
               po_customMetadata = Some (buildStorageMetadata symbol metadata) \<rparr>]"
    by (simp add: uploadChartImage_calls)
next
  show "\<forall>field \<in> set metadataFields.
         map_of (buildStorageMetadata symbol metadata) field \<noteq> None"
    by (simp add: metadataFields_def buildStorageMetadata_fields)
next
  assume "symbol \<noteq> [] \<and> um_interval metadata \<noteq> [] \<and> um_theme metadata \<noteq> []"
  then show "parseStorageMetadata (Some (buildStorageMetadata symbol metadata))
             = Some \<lparr> sm_symbol = symbol, sm_interval = um_interval metadata,
                      sm_theme = um_theme metadata,
                      sm_dimensions =
                        numberToString (um_width metadata) @ ''x''
                        @ numberToString (um_height metadata),
                      sm_generatedAt = toISOString (um_generatedAt metadata) \<rparr>"
    using parseStorageMetadata_roundtrip by blast
next
  have "\<not> truthy v \<longleftrightarrow> v = None \<or> v = Some []" for v
    by (cases v) (simp_all add: truthy_def)
  then show "parseStorageMetadata (Some cm) = None
        \<longleftrightarrow> (\<exists>field \<in> set metadataFields. map_of cm field = None \<or> map_of cm field = Some [])"
    by (simp add: parseStorageMetadata_None_iff)
next
  show "parseStorageMetadata None = None"
    by (simp add: parseStorageMetadata_def)
next
  assume "bucket_list bucket (chart_listOptions options) = Resolve page"
  then show "\<exists>listed. fst (listChartImages bucket customDomain options) = Inr listed
             \<and> map li_metadata (ls_images listed)
                 = map (\<lambda>obj. parseStorageMetadata (ob_customMetadata obj)) (lr_objects page)"
    by (simp add: listChartImages_resolved listedImageOf_def comp_def)
qed

lemma dimensions_example: "numberToString 800 = ''800''" "numberToString 600 = ''600''"
  by (simp_all add: numberToString_def decimal.simps)

theorem C8_metadata_roundtrip_witness:
  "''DRIFT:SOL-PERP'' \<noteq> [] \<and> um_interval example_metadata \<noteq> []
   \<and> um_theme example_metadata \<noteq> []
   \<and> parseStorageMetadata (Some (buildStorageMetadata ''DRIFT:SOL-PERP'' example_metadata))
     = Some \<lparr> sm_symbol = ''DRIFT:SOL-PERP'', sm_interval = ''1D'', sm_theme = ''dark'',
              sm_dimensions = ''800x600'', sm_generatedAt = ''2023-11-14T22:13:20.000Z'' \<rparr>
   \<and> ''interval'' \<in> set metadataFields
   \<and> map_of [(''symbol'', ''DRIFT:SOL-PERP'')] ''interval'' = None
   \<and> parseStorageMetadata (Some [(''symbol'', ''DRIFT:SOL-PERP'')]) = None
   \<and> bucket_list
       (listing_bucket
          [(example_object ''charts/a.png'' 4 example_now)
             \<lparr> ob_customMetadata :=
                 Some (buildStorageMetadata ''DRIFT:SOL-PERP'' example_metadata) \<rparr>,
           (example_object ''charts/b.png'' 4 example_now)
             \<lparr> ob_customMetadata := Some [(''symbol'', ''DRIFT:SOL-PERP'')] \<rparr>])
       (chart_listOptions \<lparr> lc_symbol = None, lc_limit = None, lc_cursor = None \<rparr>)
     = Resolve
         \<lparr> lr_objects =
             [(example_object ''charts/a.png'' 4 example_now)
                \<lparr> ob_customMetadata :=
                    Some (buildStorageMetadata ''DRIFT:SOL-PERP'' example_metadata) \<rparr>,
              (example_object ''charts/b.png'' 4 example_now)
                \<lparr> ob_customMetadata := Some [(''symbol'', ''DRIFT:SOL-PERP'')] \<rparr>],
           lr_truncated = False, lr_cursor = None \<rparr>
   \<and> (\<exists>listed.
         fst (listChartImages
                (listing_bucket
                   [(example_object ''charts/a.png'' 4 example_now)
                      \<lparr> ob_customMetadata :=
                          Some (buildStorageMetadata ''DRIFT:SOL-PERP'' example_metadata) \<rparr>,
                    (example_object ''charts/b.png'' 4 example_now)
                      \<lparr> ob_customMetadata := Some [(''symbol'', ''DRIFT:SOL-PERP'')] \<rparr>])
                ''example.com'' \<lparr> lc_symbol = None, lc_limit = None, lc_cursor = None \<rparr>)
           = Inr listed
         \<and> map li_metadata (ls_images listed)
             = [Some \<lparr> sm_symbol = ''DRIFT:SOL-PERP'', sm_interval = ''1D'', sm_theme = ''dark'',
                       sm_dimensions = ''800x600'',
                       sm_generatedAt = ''2023-11-14T22:13:20.000Z'' \<rparr>,
                None])"
proof -
  let ?full = "(example_object ''charts/a.png'' 4 example_now)
                 \<lparr> ob_customMetadata :=
                     Some (buildStorageMetadata ''DRIFT:SOL-PERP'' example_metadata) \<rparr>"
  let ?partial = "(example_object ''charts/b.png'' 4 example_now)
                    \<lparr> ob_customMetadata := Some [(''symbol'', ''DRIFT:SOL-PERP'')] \<rparr>"
  let ?options = "\<lparr> lc_symbol = None, lc_limit = None, lc_cursor = None \<rparr>"
  let ?page = "\<lparr> lr_objects = [?full, ?partial], lr_truncated = False, lr_cursor = None \<rparr>"
  have fields: "um_interval example_metadata = ''1D''" "um_theme example_metadata = ''dark''"
    "um_width example_metadata = 800" "um_height example_metadata = 600"
    "um_generatedAt example_metadata = example_now"
    by (simp_all add: example_metadata_def)
  have listed: "bucket_list (listing_bucket [?full, ?partial]) (chart_listOptions ?options)
                  = Resolve ?page"
    by (simp add: listing_bucket_def)
  have field: "''interval'' \<in> set metadataFields"
    by (simp add: metadataFields_def)
  have missing: "map_of [(''symbol'', ''DRIFT:SOL-PERP'')] ''interval'' = None"
    by simp
  have custom: "ob_customMetadata ?full
                  = Some (buildStorageMetadata ''DRIFT:SOL-PERP'' example_metadata)"
    "ob_customMetadata ?partial = Some [(''symbol'', ''DRIFT:SOL-PERP'')]"
    by simp_all
  note claim =
    C8_metadata_roundtrip
      [where symbol = "''DRIFT:SOL-PERP''" and metadata = example_metadata
         and cm = "[(''symbol'', ''DRIFT:SOL-PERP'')]"
         and bucket = "listing_bucket [?full, ?partial]" and options = ?options
         and page = ?page and customDomain = "''example.com''"]
  from claim fields have roundtrip:
    "parseStorageMetadata (Some (buildStorageMetadata ''DRIFT:SOL-PERP'' example_metadata))
       = Some \<lparr> sm_symbol = ''DRIFT:SOL-PERP'', sm_interval = ''1D'', sm_theme = ''dark'',
                sm_dimensions = ''800x600'', sm_generatedAt = ''2023-11-14T22:13:20.000Z'' \<rparr>"
    by (simp add: dimensions_example toISOString_example)
  from claim field missing have undefined:
    "parseStorageMetadata (Some [(''symbol'', ''DRIFT:SOL-PERP'')]) = None"
    by blast
  from claim listed obtain l where
    l: "fst (listChartImages (listing_bucket [?full, ?partial]) ''example.com'' ?options) = Inr l"
      "map li_metadata (ls_images l)
         = map (\<lambda>obj. parseStorageMetadata (ob_customMetadata obj)) (lr_objects ?page)"
    by blast
  from l(2) have "map li_metadata (ls_images l)
      = [Some \<lparr> sm_symbol = ''DRIFT:SOL-PERP'', sm_interval = ''1D'', sm_theme = ''dark'',
                sm_dimensions = ''800x600'', sm_generatedAt = ''2023-11-14T22:13:20.000Z'' \<rparr>,
         None]"
    by (simp add: custom roundtrip undefined del: R2ObjectMetadata.simps)
  with l(1) roundtrip undefined field missing listed fields show ?thesis
    by (simp del: R2ObjectMetadata.simps)
qed

section \<open>Sorting by size\<close>

lemma sortImages_compare_size:
  "sortImages_compare getTime ''size'' sortOrder a b \<le> 0
     \<longleftrightarrow> (if sortOrder = ''asc'' then im_size a \<le> im_size b else im_size b \<le> im_size a)"
  by (simp add: sortImages_compare_def Let_def)

text \<open>
  With the size comparator the insertion of the sort is the insertion by key of the
  library: by the size when ascending, by the negated size otherwise.
\<close>

lemma sort_insert_size_asc:
  "sort_insert (sortImages_compare getTime ''size'' ''asc'') x ys = insort_key im_size x ys"
  by (induction ys) (simp_all add: sortImages_compare_size)

lemma sort_insert_size_desc:
  assumes "sortOrder \<noteq> ''asc''"
  shows "sort_insert (sortImages_compare getTime ''size'' sortOrder) x ys
           = insort_key (\<lambda>i. - im_size i) x ys"
  using assms by (induction ys) (simp_all add: sortImages_compare_size)

lemma sortImages_size_asc: "sortImages getTime images ''size'' ''asc'' = sort_key im_size images"
  by (induction images) (simp_all add: sortImages_def array_sort_def sort_insert_size_asc sort_key_def)

lemma sortImages_size_desc:
  assumes "sortOrder \<noteq> ''asc''"
  shows "sortImages getTime images ''size'' sortOrder = sort_key (\<lambda>i. - im_size i) images"
  using assms
  by (induction images)
     (simp_all add: sortImages_def array_sort_def sort_insert_size_desc sort_key_def)

lemma sortImages_size_cases:
  "sortImages getTime images ''size'' sortOrder
     = (if sortOrder = ''asc'' then sort_key im_size images
        else sort_key (\<lambda>i. - im_size i) images)"
  by (simp add: sortImages_size_asc sortImages_size_desc)

lemma sorted_negated_rev:
  fixes zs :: "int list"
  assumes "sorted (map uminus zs)"
  shows "sorted (rev zs)"
  using assms by (induction zs) (auto simp: sorted_append)

lemma sorted_desc:
  "sorted (rev (map im_size (sort_key (\<lambda>i. - im_size i) images)))"
proof -
  have "sorted (map (\<lambda>i. - im_size i) (sort_key (\<lambda>i. - im_size i) images))"
    by (rule sorted_sort_key)
  then have "sorted (map uminus (map im_size (sort_key (\<lambda>i. - im_size i) images)))"
    by (simp add: comp_def)
  then show ?thesis by (rule sorted_negated_rev)
qed

text \<open>Two lists of the same images, both ascending in pairwise distinct sizes, are equal.\<close>

lemma asc_is_rev_desc:
  assumes "distinct (map im_size images)"
  shows "sort_key im_size images = rev (sort_key (\<lambda>i. - im_size i) images)"
proof -
  let ?asc = "sort_key im_size images"
  let ?desc = "sort_key (\<lambda>i. - im_size i) images"
  from assms have inj: "inj_on im_size (set images)" and dist: "distinct images"
    by (simp_all add: distinct_map)
  have s1: "sorted (map im_size ?asc)" by (rule sorted_sort_key)
  have s2: "sorted (map im_size (rev ?desc))"
    using sorted_desc [of images] by (simp add: rev_map)
  have d1: "distinct (map im_size ?asc)" and d2: "distinct (map im_size (rev ?desc))"
    using inj dist by (simp_all add: distinct_map)
  have "set (map im_size ?asc) = set (map im_size (rev ?desc))"
    by simp
  with s1 d1 s2 d2 have "map im_size ?asc = map im_size (rev ?desc)"
    by (rule sorted_distinct_set_unique)
  moreover have "inj_on im_size (set ?asc \<union> set (rev ?desc))"
    using inj by simp
  ultimately show ?thesis
    by (simp add: inj_on_map_eq_map)
qed

text \<open>An omitted sort order is the descending one.\<close>

lemma getImageList_default_order:
  "getImageList bucket customDomain getTime
     (options\<lparr> io_sortBy := Some ''size'', io_sortOrder := None \<rparr>)
   = getImageList bucket customDomain getTime
       (options\<lparr> io_sortBy := Some ''size'', io_sortOrder := Some ''desc'' \<rparr>)"
  by (simp add: getImageList_def or_string_def Let_def split: prod.splits sum.splits)

text \<open>
  What \<open>getImageList\<close> returns when the bucket serves a page: the views of the objects of the
  page, sorted when \<open>sortBy\<close> is given, in the order \<open>sortOrder\<close> or else \<open>desc\<close>.
\<close>

lemma getImageList_resolved:
  assumes "bucket_list bucket (image_listOptions options) = Resolve page"
  shows "getImageList bucket customDomain getTime options
           = (Inr \<lparr> il_images =
                      (if truthy (io_sortBy options)
                       then sortImages getTime
                              (map (imageDetailsOf customDomain) (lr_objects page))
                              (or_string (io_sortBy options) [])
                              (or_string (io_sortOrder options) ''desc'')
                       else map (imageDetailsOf customDomain) (lr_objects page)),
                    il_hasMore = lr_truncated page, il_nextCursor = next_cursor page \<rparr>,
              [R2List (image_listOptions options)])"
proof -
  have "listChartImages bucket customDomain
          \<lparr> lc_symbol = io_symbol options, lc_limit = Some (or_number (io_limit options) 20),
            lc_cursor = io_cursor options \<rparr>
        = (Inr \<lparr> ls_images = map (listedImageOf customDomain) (lr_objects page),
                 ls_hasMore = lr_truncated page, ls_nextCursor = next_cursor page \<rparr>,
           [R2List (image_listOptions options)])"
    using assms unfolding image_listOptions_def by (rule listChartImages_resolved)
  then show ?thesis
    by (simp add: getImageList_def imageDetailsOf_def listedImageOf_def comp_def Let_def
          cong: map_cong)
qed

lemma image_listOptions_sort:
  "image_listOptions (options\<lparr> io_sortBy := sortBy, io_sortOrder := sortOrder \<rparr>)
     = image_listOptions options"
  by (simp add: image_listOptions_def)

lemma getImageList_size:
  assumes "bucket_list bucket (image_listOptions options) = Resolve page"
  shows "getImageList bucket customDomain getTime
           (options\<lparr> io_sortBy := Some ''size'', io_sortOrder := sortOrder \<rparr>)
         = (Inr \<lparr> il_images =
                    sortImages getTime (map (imageDetailsOf customDomain) (lr_objects page))
                      ''size'' (or_string sortOrder ''desc''),
                  il_hasMore = lr_truncated page, il_nextCursor = next_cursor page \<rparr>,
            [R2List (image_listOptions options)])"
proof -
  from assms
  have "bucket_list bucket
          (image_listOptions (options\<lparr> io_sortBy := Some ''size'', io_sortOrder := sortOrder \<rparr>))
        = Resolve page"
    by (simp add: image_listOptions_sort)
  then show ?thesis
    by (simp add: getImageList_resolved image_listOptions_sort truthy_def or_string_def)
qed

lemma im_size_imageDetailsOf: "im_size (imageDetailsOf customDomain obj) = ob_size obj"
  by (simp add: imageDetailsOf_def)

lemma filter_size_imageDetailsOf:
  "filter (\<lambda>i. im_size i = k) (map (imageDetailsOf customDomain) objs)
     = map (imageDetailsOf customDomain) (filter (\<lambda>obj. ob_size obj = k) objs)"
  by (induction objs) (simp_all add: im_size_imageDetailsOf)

text \<open>
  C9. Sorted by size, a list of images with pairwise distinct sizes (of three images, or
  of any number) comes out ascending as the exact reverse of how it comes out descending;
  the ascending result ascends and the descending one descends in size, and both hold the
  images of the input. Images of equal size keep their input order, whatever the sort
  order. \<open>getImageList\<close> with \<open>sortBy = size\<close> and no sort order returns what it returns
  with the sort order \<open>desc\<close>. When the bucket serves a page, \<open>getImageList\<close> with
  \<open>sortBy = size\<close> returns the views of the objects of the page sorted by size: descending
  when no sort order is given, ascending for \<open>asc\<close>; for pairwise distinct sizes the
  ascending list it returns is the reverse of the list it returns by default, which
  descends in size; and under every sort order the images of one size come out in the
  order in which the page lists their objects.
\<close>

theorem C9_sort_by_size:
  "(distinct (map im_size images)
      \<longrightarrow> sortImages getTime images ''size'' ''asc''
            = rev (sortImages getTime images ''size'' ''desc''))
   \<and> sorted (map im_size (sortImages getTime images ''size'' ''asc''))
   \<and> sorted (rev (map im_size (sortImages getTime images ''size'' ''desc'')))
   \<and> set (sortImages getTime images ''size'' sortOrder) = set images
   \<and> length (sortImages getTime images ''size'' sortOrder) = length images
   \<and> filter (\<lambda>i. im_size i = k) (sortImages getTime images ''size'' sortOrder)
       = filter (\<lambda>i. im_size i = k) images
   \<and> getImageList bucket customDomain getTime
         (options\<lparr> io_sortBy := Some ''size'', io_sortOrder := None \<rparr>)
       = getImageList bucket customDomain getTime
           (options\<lparr> io_sortBy := Some ''size'', io_sortOrder := Some ''desc'' \<rparr>)
   \<and> (bucket_list bucket (image_listOptions options) = Resolve page
        \<longrightarrow> getImageList bucket customDomain getTime
              (options\<lparr> io_sortBy := Some ''size'', io_sortOrder := None \<rparr>)
            = (Inr \<lparr> il_images =
                       sortImages getTime (map (imageDetailsOf customDomain) (lr_objects page))
                         ''size'' ''desc'',
                     il_hasMore = lr_truncated page, il_nextCursor = next_cursor page \<rparr>,
               [R2List (image_listOptions options)])
          \<and> getImageList bucket customDomain getTime
                (options\<lparr> io_sortBy := Some ''size'', io_sortOrder := Some ''asc'' \<rparr>)
              = (Inr \<lparr> il_images =
                         sortImages getTime (map (imageDetailsOf customDomain) (lr_objects page))
                           ''size'' ''asc'',
                       il_hasMore = lr_truncated page, il_nextCursor = next_cursor page \<rparr>,
                 [R2List (image_listOptions options)])
          \<and> (\<exists>byDefault.
                fst (getImageList bucket customDomain getTime
                       (options\<lparr> io_sortBy := Some ''size'', io_sortOrder := None \<rparr>))
                  = Inr byDefault
                \<and> sorted (rev (map im_size (il_images byDefault)))
                \<and> set (il_images byDefault) = imageDetailsOf customDomain ` set (lr_objects page)
                \<and> length (il_images byDefault) = length (lr_objects page)
                \<and> (distinct (map ob_size (lr_objects page))
                     \<longrightarrow> fst (getImageList bucket customDomain getTime
                                (options\<lparr> io_sortBy := Some ''size'',
                                          io_sortOrder := Some ''asc'' \<rparr>))
                           = Inr (byDefault\<lparr> il_images := rev (il_images byDefault) \<rparr>)))
          \<and> (\<exists>listed.
                fst (getImageList bucket customDomain getTime
                       (options\<lparr> io_sortBy := Some ''size'', io_sortOrder := order \<rparr>))
                  = Inr listed
                \<and> filter (\<lambda>i. im_size i = k) (il_images listed)
                    = map (imageDetailsOf customDomain)
                        (filter (\<lambda>obj. ob_size obj = k) (lr_objects page))))"
proof (intro conjI impI)
  assume "distinct (map im_size images)"
  then show "sortImages getTime images ''size'' ''asc''
               = rev (sortImages getTime images ''size'' ''desc'')"
    by (simp add: sortImages_size_cases asc_is_rev_desc)
next
  show "sorted (map im_size (sortImages getTime images ''size'' ''asc''))"
    by (simp add: sortImages_size_cases)
next
  show "sorted (rev (map im_size (sortImages getTime images ''size'' ''desc'')))"
    by (simp add: sortImages_size_cases sorted_desc)
next
  show "set (sortImages getTime images ''size'' sortOrder) = set images"
    by (simp add: sortImages_size_cases)
next
  show "length (sortImages getTime images ''size'' sortOrder) = length images"
    by (simp add: sortImages_size_cases)
next
  have "filter (\<lambda>i. - im_size i = - k) (sort_key (\<lambda>i. - im_size i) images)
          = filter (\<lambda>i. - im_size i = - k) images"
    by (rule sort_key_stable)
  then show "filter (\<lambda>i. im_size i = k) (sortImages getTime images ''size'' sortOrder)
               = filter (\<lambda>i. im_size i = k) images"
    by (simp add: sortImages_size_cases sort_key_stable)
next
  show "getImageList bucket customDomain getTime
         (options\<lparr> io_sortBy := Some ''size'', io_sortOrder := None \<rparr>)
       = getImageList bucket customDomain getTime
           (options\<lparr> io_sortBy := Some ''size'', io_sortOrder := Some ''desc'' \<rparr>)"
    by (rule getImageList_default_order)
next
  assume served: "bucket_list bucket (image_listOptions options) = Resolve page"
  let ?views = "map (imageDetailsOf customDomain) (lr_objects page)"
  let ?list = "\<lambda>sortOrder. getImageList bucket customDomain getTime
                 (options\<lparr> io_sortBy := Some ''size'', io_sortOrder := sortOrder \<rparr>)"
  let ?result = "\<lambda>sortOrder.
        \<lparr> il_images = sortImages getTime ?views ''size'' sortOrder,
          il_hasMore = lr_truncated page, il_nextCursor = next_cursor page \<rparr>"
  show byDefault: "?list None = (Inr (?result ''desc''), [R2List (image_listOptions options)])"
    using getImageList_size [OF served, where sortOrder = None] by (simp add: or_string_def)
  show asc: "?list (Some ''asc'') = (Inr (?result ''asc''), [R2List (image_listOptions options)])"
    using getImageList_size [OF served, where sortOrder = "Some ''asc''"]
    by (simp add: or_string_def)
  have desc_sorted: "sorted (rev (map im_size (il_images (?result ''desc''))))"
    by (simp add: sortImages_size_cases sorted_desc)
  have desc_set: "set (il_images (?result ''desc'')) = imageDetailsOf customDomain ` set (lr_objects page)"
    by (simp add: sortImages_size_cases)
  have desc_length: "length (il_images (?result ''desc'')) = length (lr_objects page)"
    by (simp add: sortImages_size_cases)
  have reversed: "fst (?list (Some ''asc''))
                    = Inr ((?result ''desc'')\<lparr> il_images := rev (il_images (?result ''desc'')) \<rparr>)"
    if "distinct (map ob_size (lr_objects page))"
  proof -
    from that have "distinct (map im_size ?views)"
      by (simp add: comp_def im_size_imageDetailsOf)
    then have "sortImages getTime ?views ''size'' ''asc''
                 = rev (sortImages getTime ?views ''size'' ''desc'')"
      by (simp add: sortImages_size_cases asc_is_rev_desc)
    with asc show ?thesis by simp
  qed
  from byDefault desc_sorted desc_set desc_length reversed
  show "\<exists>byDefault.
          fst (?list None) = Inr byDefault
          \<and> sorted (rev (map im_size (il_images byDefault)))
          \<and> set (il_images byDefault) = imageDetailsOf customDomain ` set (lr_objects page)
          \<and> length (il_images byDefault) = length (lr_objects page)
          \<and> (distinct (map ob_size (lr_objects page))
               \<longrightarrow> fst (?list (Some ''asc''))
                     = Inr (byDefault\<lparr> il_images := rev (il_images byDefault) \<rparr>))"
    by (intro exI [where x = "?result ''desc''"] conjI impI) simp_all
  have stable: "filter (\<lambda>i. im_size i = k)
                  (sortImages getTime ?views ''size'' (or_string order ''desc''))
                = filter (\<lambda>i. im_size i = k) ?views"
  proof -
    have "filter (\<lambda>i. - im_size i = - k) (sort_key (\<lambda>i. - im_size i) ?views)
            = filter (\<lambda>i. - im_size i = - k) ?views"
      by (rule sort_key_stable)
    then show ?thesis
      by (simp add: sortImages_size_cases sort_key_stable)
  qed
  show "\<exists>listed.
          fst (?list order) = Inr listed
          \<and> filter (\<lambda>i. im_size i = k) (il_images listed)
              = map (imageDetailsOf customDomain)
                  (filter (\<lambda>obj. ob_size obj = k) (lr_objects page))"
    using getImageList_size [OF served, where sortOrder = order] stable
    by (simp add: filter_size_imageDetailsOf)
qed

theorem C9_sort_by_size_witness:
  "distinct (map im_size [sized_image ''a'' 30, sized_image ''b'' 10, sized_image ''c'' 20])
   \<and> sortImages (\<lambda>text. None) [sized_image ''a'' 30, sized_image ''b'' 10, sized_image ''c'' 20]
       ''size'' ''desc''
     = [sized_image ''a'' 30, sized_image ''c'' 20, sized_image ''b'' 10]
   \<and> sortImages (\<lambda>text. None) [sized_image ''a'' 30, sized_image ''b'' 10, sized_image ''c'' 20]
       ''size'' ''asc''
     = [sized_image ''b'' 10, sized_image ''c'' 20, sized_image ''a'' 30]
   \<and> bucket_list
       (listing_bucket [sized_object ''a'' 30, sized_object ''b'' 10, sized_object ''c'' 20])
       (image_listOptions no_listOptions)
     = Resolve \<lparr> lr_objects = [sized_object ''a'' 30, sized_object ''b'' 10, sized_object ''c'' 20],
                 lr_truncated = False, lr_cursor = None \<rparr>
   \<and> distinct (map ob_size [sized_object ''a'' 30, sized_object ''b'' 10, sized_object ''c'' 20])
   \<and> fst (getImageList
            (listing_bucket [sized_object ''a'' 30, sized_object ''b'' 10, sized_object ''c'' 20])
            ''example.com'' (\<lambda>text. None)
            (no_listOptions\<lparr> io_sortBy := Some ''size'', io_sortOrder := None \<rparr>))
     = Inr \<lparr> il_images =
               map (imageDetailsOf ''example.com'')
                 [sized_object ''a'' 30, sized_object ''c'' 20, sized_object ''b'' 10],
             il_hasMore = False, il_nextCursor = None \<rparr>
   \<and> fst (getImageList
            (listing_bucket [sized_object ''a'' 30, sized_object ''b'' 10, sized_object ''c'' 20])
            ''example.com'' (\<lambda>text. None)
            (no_listOptions\<lparr> io_sortBy := Some ''size'', io_sortOrder := Some ''asc'' \<rparr>))
     = Inr \<lparr> il_images =
               map (imageDetailsOf ''example.com'')
                 [sized_object ''b'' 10, sized_object ''c'' 20, sized_object ''a'' 30],
             il_hasMore = False, il_nextCursor = None \<rparr>"
proof -
  let ?images = "[sized_image ''a'' 30, sized_image ''b'' 10, sized_image ''c'' 20]"
  let ?objects = "[sized_object ''a'' 30, sized_object ''b'' 10, sized_object ''c'' 20]"
  let ?page = "\<lparr> lr_objects = ?objects, lr_truncated = False, lr_cursor = None \<rparr>"
  have sizes: "im_size (sized_image name bytes) = bytes" for name bytes
    by (simp add: sized_image_def)
  have object_sizes: "ob_size (sized_object name bytes) = bytes" for name bytes
    by (simp add: sized_object_def example_object_def)
  have distinct: "distinct (map im_size ?images)"
    by (simp add: sizes)
  have distinct_objects: "distinct (map ob_size ?objects)"
    by (simp add: object_sizes)
  have desc: "sortImages (\<lambda>text. None) ?images ''size'' ''desc''
                = [sized_image ''a'' 30, sized_image ''c'' 20, sized_image ''b'' 10]"
    by (simp add: sortImages_def array_sort_def sortImages_compare_def sizes Let_def)
  have served: "bucket_list (listing_bucket ?objects) (image_listOptions no_listOptions)
                  = Resolve ?page"
    by (simp add: listing_bucket_def)
  have views_desc: "sortImages (\<lambda>text. None) (map (imageDetailsOf ''example.com'') ?objects)
                      ''size'' ''desc''
                    = map (imageDetailsOf ''example.com'')
                        [sized_object ''a'' 30, sized_object ''c'' 20, sized_object ''b'' 10]"
    by (simp add: sortImages_def array_sort_def sortImages_compare_def im_size_imageDetailsOf
          object_sizes Let_def)
  have views_asc: "sortImages (\<lambda>text. None) (map (imageDetailsOf ''example.com'') ?objects)
                     ''size'' ''asc''
                   = map (imageDetailsOf ''example.com'')
                       [sized_object ''b'' 10, sized_object ''c'' 20, sized_object ''a'' 30]"
    by (simp add: sortImages_def array_sort_def sortImages_compare_def im_size_imageDetailsOf
          object_sizes Let_def)
  note sorted_by_size =
    C9_sort_by_size [where images = ?images and getTime = "\<lambda>text. None"
      and bucket = "listing_bucket ?objects" and options = no_listOptions and page = ?page
      and customDomain = "''example.com''" and sortOrder = "''desc''" and k = 30
      and order = None]
  let ?list = "\<lambda>sortOrder. getImageList (listing_bucket ?objects) ''example.com'' (\<lambda>text. None)
                 (no_listOptions\<lparr> io_sortBy := Some ''size'', io_sortOrder := sortOrder \<rparr>)"
  let ?result = "\<lambda>sortOrder.
        \<lparr> il_images =
            sortImages (\<lambda>text. None) (map (imageDetailsOf ''example.com'') (lr_objects ?page))
              ''size'' sortOrder,
          il_hasMore = lr_truncated ?page, il_nextCursor = next_cursor ?page \<rparr>"
  from sorted_by_size distinct
  have reversed: "sortImages (\<lambda>text. None) ?images ''size'' ''asc''
                    = rev (sortImages (\<lambda>text. None) ?images ''size'' ''desc'')"
    by blast
  from sorted_by_size served
  have "?list None = (Inr (?result ''desc''), [R2List (image_listOptions no_listOptions)])"
    and "?list (Some ''asc'') = (Inr (?result ''asc''), [R2List (image_listOptions no_listOptions)])"
    by blast+
  with distinct desc reversed served distinct_objects views_desc views_asc
  show ?thesis by (simp add: next_cursor_def)
qed

section \<open>Sweeping the pages of the store\<close>























section \<open>Statistics over the pages of the store\<close>

lemma statistics_chart_listOptions:
  "chart_listOptions
     \<lparr> lc_symbol = symbol, lc_limit = Some (or_number (Some 1000) 20), lc_cursor = cursor \<rparr>
   = statistics_listOptions symbol cursor"
  by (simp add: chart_listOptions_def statistics_listOptions_def or_number_def)

text \<open>What \<open>getImageList\<close> returns, unsorted, for one page of the statistics loop.\<close>

lemma getImageList_statistics_page:
  assumes "bucket_list bucket (statistics_listOptions symbol cursor) = Resolve page"
  shows "getImageList bucket customDomain getTime
           \<lparr> io_symbol = symbol, io_limit = Some 1000, io_cursor = cursor, io_sortBy = None,
             io_sortOrder = None \<rparr>
         = (Inr \<lparr> il_images = map (imageDetailsOf customDomain) (lr_objects page),
                  il_hasMore = lr_truncated page, il_nextCursor = next_cursor page \<rparr>,
            [R2List (statistics_listOptions symbol cursor)])"
proof -
  let ?options =
    "\<lparr> lc_symbol = symbol, lc_limit = Some (or_number (Some 1000) 20), lc_cursor = cursor \<rparr>"
  from assms have "bucket_list bucket (chart_listOptions ?options) = Resolve page"
    by (simp only: statistics_chart_listOptions)
  then have "listChartImages bucket customDomain ?options
      = (Inr \<lparr> ls_images = map (listedImageOf customDomain) (lr_objects page),
               ls_hasMore = lr_truncated page, ls_nextCursor = next_cursor page \<rparr>,
         [R2List (statistics_listOptions symbol cursor)])"
    by (simp only: listChartImages_resolved statistics_chart_listOptions)
  then show ?thesis
    by (simp add: getImageList_def truthy_def imageDetailsOf_def listedImageOf_def comp_def
          Let_def)
qed

lemma statistics_loop_pages:
  assumes "served_pages bucket (statistics_listOptions symbol) cursor pages"
  shows "\<exists>calls'.
           statistics_loop bucket customDomain getTime symbol cursor allImages calls
             = Some (Inr (allImages
                          @ map (imageDetailsOf customDomain) (concat (map lr_objects pages))),
                     calls')"
  using assms
proof (induction pages arbitrary: cursor allImages calls)
  case Nil
  then show ?case by simp
next
  case (Cons page pages)
  from Cons.prems have
    served: "bucket_list bucket (statistics_listOptions symbol cursor) = Resolve page"
    by simp
  note listed = getImageList_statistics_page [OF served, of customDomain getTime]
  show ?case
  proof (cases "pages = []")
    case True
    with Cons.prems have "\<not> truthy (next_cursor page)" by simp
    with True listed show ?thesis
      by (subst statistics_loop.simps) simp
  next
    case False
    with Cons.prems have more: "truthy (next_cursor page)"
      and rest: "served_pages bucket (statistics_listOptions symbol) (next_cursor page) pages"
      by simp_all
    from Cons.IH [OF rest] obtain calls' where
      "statistics_loop bucket customDomain getTime symbol (next_cursor page)
         (allImages @ map (imageDetailsOf customDomain) (lr_objects page))
         (calls @ [R2List (statistics_listOptions symbol cursor)])
       = Some (Inr ((allImages @ map (imageDetailsOf customDomain) (lr_objects page))
                    @ map (imageDetailsOf customDomain) (concat (map lr_objects pages))),
               calls')"
      by blast
    with more listed show ?thesis
      by (subst statistics_loop.simps) simp
  qed
qed

lemma computeStatistics_empty:
  "computeStatistics getTime []
     = \<lparr> st_totalImages = 0, st_totalSize = 0, st_averageSize = 0, st_latestImage = None,
         st_oldestImage = None, st_byTheme = [], st_byInterval = [] \<rparr>"
  by (simp add: computeStatistics_def)

text \<open>
  C10. When the store presents the matching objects as a sequence of list pages and there
  is none on any page, \<open>getImageStatistics\<close> returns, without an error, the statistics with
  zero images, total size 0, average size 0, no latest or oldest image and empty tables by
  theme and by interval.
\<close>

theorem C10_statistics_of_no_objects:
  assumes "served_pages bucket (statistics_listOptions symbol) None pages"
    and "concat (map lr_objects pages) = []"
  shows "\<exists>calls.
           getImageStatistics bucket customDomain getTime symbol
             = Some (Inr \<lparr> st_totalImages = 0, st_totalSize = 0, st_averageSize = 0,
                           st_latestImage = None, st_oldestImage = None, st_byTheme = [],
                           st_byInterval = [] \<rparr>,
                     calls)"
proof -
  from statistics_loop_pages [OF assms(1), of customDomain getTime "[]" "[]"] assms(2)
  obtain calls where
    "statistics_loop bucket customDomain getTime symbol None [] [] = Some (Inr [], calls)"
    by auto
  then show ?thesis
    by (simp add: getImageStatistics_def computeStatistics_empty)
qed

theorem C10_statistics_of_no_objects_witness:
  "served_pages empty_bucket (statistics_listOptions None) None
     [\<lparr> lr_objects = [], lr_truncated = False, lr_cursor = None \<rparr>]
   \<and> concat (map lr_objects [\<lparr> lr_objects = [], lr_truncated = False, lr_cursor = None \<rparr>]) = []
   \<and> (\<exists>calls.
         getImageStatistics empty_bucket ''example.com'' (\<lambda>text. None) None
           = Some (Inr \<lparr> st_totalImages = 0, st_totalSize = 0, st_averageSize = 0,
                         st_latestImage = None, st_oldestImage = None, st_byTheme = [],
                         st_byInterval = [] \<rparr>,
                   calls))"
proof -
  have served: "served_pages empty_bucket (statistics_listOptions None) None
     [\<lparr> lr_objects = [], lr_truncated = False, lr_cursor = None \<rparr>]"
    by (simp add: empty_bucket_def next_cursor_def truthy_def)
  have none: "concat (map lr_objects [\<lparr> lr_objects = [], lr_truncated = False, lr_cursor = None \<rparr>]) = []"
    by simp
  from served none
    C10_statistics_of_no_objects [OF served none, of "''example.com''" "\<lambda>text. None"]
  show ?thesis by blast
qed

end
